theory Spec2Isabelle
  imports Complex_Main
begin

section \<open>Data model\<close>

text \<open>
  The repair engine of \<^verbatim>\<open>repair_gdf_jc_v1_2.py\<close> works on GeoDataFrames whose geometries
  are shapely objects.  The geometry library is not part of the repository, so a geometry
  is a value of an arbitrary type \<open>'g\<close> and every library operation the source calls is a
  field of the record \<open>shapely\<close>, passed to every function as \<open>G\<close>.  Lengths, areas and
  distances are Python floats; they are modelled by exact rationals, so rounding is not
  part of the model.
\<close>

type_synonym label = nat
type_synonym coord = "rat \<times> rat"

datatype gtype = Polygon | MultiPolygon | Point | MultiPoint | LineString
  | MultiLineString | LinearRing | GeometryCollection

datatype error = TypeError | ValueError | IndexError | NameError string
  | UnboundLocalError string

datatype val = IntV int | NaN | TextV string

datatype stage = ArrangementBuilder | OverlapClassifier | Reconstructor | GapCloser
  | DisconnectionRepair | RookToQueenConverter

datatype msg = Print string
  | PrintAssigningOrder nat
  | WarnGeographicCRS
  | WarnBadlyDisconnected label
  | WarnMayHaveBeenDisconnected label

record 'g shapely =
  is_empty :: "'g \<Rightarrow> bool"
  geom_type :: "'g \<Rightarrow> gtype"
  geoms :: "'g \<Rightarrow> 'g list"
  area :: "'g \<Rightarrow> rat"
  glength :: "'g \<Rightarrow> rat"
  boundary :: "'g \<Rightarrow> 'g"
  centroid :: "'g \<Rightarrow> 'g"
  representative_point :: "'g \<Rightarrow> 'g"
  coords :: "'g \<Rightarrow> coord list"
  exterior_coords :: "'g \<Rightarrow> coord list"
  buffer :: "'g \<Rightarrow> rat \<Rightarrow> 'g"
  intersection :: "'g \<Rightarrow> 'g \<Rightarrow> 'g"
  distance :: "'g \<Rightarrow> 'g \<Rightarrow> rat"
  contains :: "'g \<Rightarrow> 'g \<Rightarrow> bool"
  disjoint :: "'g \<Rightarrow> 'g \<Rightarrow> bool"
  intersects :: "'g \<Rightarrow> 'g \<Rightarrow> bool"
  nearest_points :: "'g \<Rightarrow> 'g \<Rightarrow> 'g \<times> 'g"
  unary_union :: "'g list \<Rightarrow> 'g"
  polygonize :: "'g \<Rightarrow> 'g list"
  linemerge :: "'g \<Rightarrow> 'g"
  split_op :: "'g \<Rightarrow> 'g \<Rightarrow> 'g list"
  force_2d :: "'g \<Rightarrow> 'g"
  mk_polygon :: "coord list \<Rightarrow> 'g"
  mk_multipolygon :: "'g list \<Rightarrow> 'g"
  mk_point :: "coord \<Rightarrow> 'g"
  mk_multipoint :: "coord list \<Rightarrow> 'g"
  mk_linestring :: "coord list \<Rightarrow> 'g"
  mk_linestring_pts :: "'g list \<Rightarrow> 'g"
  mk_multilinestring :: "'g list \<Rightarrow> 'g"
  strtree_query :: "'g list \<Rightarrow> 'g \<Rightarrow> nat list"
  set_order :: "nat list \<Rightarrow> nat list"

text \<open>
  The fields are named after the shapely calls: \<open>geoms g\<close> lists the members of a multi-part
  geometry (\<^verbatim>\<open>len(g)\<close>, \<^verbatim>\<open>g[k]\<close>, \<^verbatim>\<open>list(g)\<close>, the rows \<^verbatim>\<open>explode()\<close> makes),
  \<open>glength\<close> is \<^verbatim>\<open>.length\<close>, \<open>split_op\<close> is \<^verbatim>\<open>shapely.ops.split\<close>, \<open>force_2d\<close> is the
  round trip \<^verbatim>\<open>wkb.loads(wkb.dumps(g, output_dimension=2))\<close>, the \<open>mk_\<close> fields are the
  constructors (\<^verbatim>\<open>Polygon()\<close> is \<open>mk_polygon []\<close>), \<open>strtree_query gs q\<close> gives the positions
  in \<open>gs\<close> of the geometries an \<^verbatim>\<open>STRtree(gs).query(q)\<close> returns, in the tree's order, and
  \<open>set_order\<close> is the order in which Python iterates a set of integers.
\<close>

record 'g frame =
  findex :: "label list"
  geometry :: "label \<Rightarrow> 'g"
  cols :: "string \<rightharpoonup> (label \<Rightarrow> val)"
  geographic :: bool

text \<open>
  A GeoDataFrame of polygon records: the row labels in order, the \<^verbatim>\<open>"geometry"\<close> column,
  the other columns by name, and whether the frame has a geographic CRS.  Frames are
  objects: a variable of the source holds the address of a frame in the heap, so that a
  write through one variable is seen through every alias and \<^verbatim>\<open>.copy()\<close> is an allocation.
\<close>

record 'g world =
  heap :: "'g frame list"
  stdout :: "msg list"
  stages :: "stage list"

type_synonym ('g, 'a) res = "(error + 'a) \<times> 'g world"

definition and_then :: "('g, 'a) res \<Rightarrow> ('a \<Rightarrow> 'g world \<Rightarrow> ('g, 'b) res) \<Rightarrow> ('g, 'b) res" where
  "and_then r f = (case r of (Inl e, w) \<Rightarrow> (Inl e, w) | (Inr x, w) \<Rightarrow> f x w)"

fun for_each :: "'x list \<Rightarrow> ('x \<Rightarrow> 's \<Rightarrow> 'g world \<Rightarrow> ('g, 's) res) \<Rightarrow> 's \<Rightarrow> 'g world \<Rightarrow> ('g, 's) res" where
  "for_each [] body s w = (Inr s, w)"
| "for_each (x # xs) body s w =
     (case body x s w of
        (Inl e, w') \<Rightarrow> (Inl e, w')
      | (Inr s', w') \<Rightarrow> for_each xs body s' w')"

definition df_copy :: "nat \<Rightarrow> 'g world \<Rightarrow> nat \<times> 'g world" where
  "df_copy a w = (length (heap w), w\<lparr>heap := heap w @ [heap w ! a]\<rparr>)"

definition df_new :: "'g frame \<Rightarrow> 'g world \<Rightarrow> nat \<times> 'g world" where
  "df_new f w = (length (heap w), w\<lparr>heap := heap w @ [f]\<rparr>)"

definition get_geom :: "'g world \<Rightarrow> nat \<Rightarrow> label \<Rightarrow> 'g" where
  "get_geom w a i = geometry (heap w ! a) i"

definition set_geom :: "nat \<Rightarrow> label \<Rightarrow> 'g \<Rightarrow> 'g world \<Rightarrow> 'g world" where
  "set_geom a i g w =
     w\<lparr>heap := (heap w)[a := (heap w ! a)\<lparr>geometry := (geometry (heap w ! a))(i := g)\<rparr>]\<rparr>"

definition set_col :: "nat \<Rightarrow> string \<Rightarrow> (label \<Rightarrow> val) \<Rightarrow> 'g world \<Rightarrow> 'g world" where
  "set_col a n c w =
     w\<lparr>heap := (heap w)[a := (heap w ! a)\<lparr>cols := (cols (heap w ! a))(n \<mapsto> c)\<rparr>]\<rparr>"

definition del_col :: "nat \<Rightarrow> string \<Rightarrow> 'g world \<Rightarrow> 'g world" where
  "del_col a n w =
     w\<lparr>heap := (heap w)[a := (heap w ! a)\<lparr>cols := (cols (heap w ! a))(n := None)\<rparr>]\<rparr>"

definition get_col :: "'g world \<Rightarrow> nat \<Rightarrow> string \<Rightarrow> label \<Rightarrow> val" where
  "get_col w a n i = (case cols (heap w ! a) n of None \<Rightarrow> NaN | Some c \<Rightarrow> c i)"

definition say :: "msg \<Rightarrow> 'g world \<Rightarrow> 'g world" where
  "say m w = w\<lparr>stdout := stdout w @ [m]\<rparr>"

definition enter :: "stage \<Rightarrow> 'g world \<Rightarrow> 'g world" where
  "enter s w = w\<lparr>stages := stages w @ [s]\<rparr>"

section \<open>Short functions\<close>

text \<open>\<^verbatim>\<open>num_components_jc\<close>: the result is \<open>None\<close> where the Python function falls off its
  last \<^verbatim>\<open>elif\<close> and returns \<^verbatim>\<open>None\<close>.\<close>

definition num_components_jc :: "'g shapely \<Rightarrow> 'g \<Rightarrow> nat option" where
  "num_components_jc G geom =
     (if is_empty G geom then Some 0
      else if geom_type G geom = Polygon \<or> geom_type G geom = Point
              \<or> geom_type G geom = LineString then Some 1
      else if geom_type G geom = MultiPolygon \<or> geom_type G geom = MultiLineString
              \<or> geom_type G geom = GeometryCollection then Some (length (geoms G geom))
      else None)"

text \<open>\<^verbatim>\<open>a > b\<close> on two results of \<^verbatim>\<open>num_components_jc\<close>: comparing \<^verbatim>\<open>None\<close> raises.\<close>

definition py_gt :: "nat option \<Rightarrow> nat option \<Rightarrow> error + bool" where
  "py_gt a b = (case (a, b) of (Some x, Some y) \<Rightarrow> Inr (y < x) | _ \<Rightarrow> Inl TypeError)"

text \<open>\<^verbatim>\<open>len(g)\<close> and \<^verbatim>\<open>g[k]\<close> are defined on multi-part geometries only.\<close>

definition is_multi :: "'g shapely \<Rightarrow> 'g \<Rightarrow> bool" where
  "is_multi G g \<longleftrightarrow> geom_type G g \<in> {MultiPolygon, MultiPoint, MultiLineString, GeometryCollection}"

definition py_len :: "'g shapely \<Rightarrow> 'g \<Rightarrow> error + nat" where
  "py_len G g = (if is_multi G g then Inr (length (geoms G g)) else Inl TypeError)"

text \<open>The rows \<^verbatim>\<open>explode()\<close> makes of one geometry.\<close>

definition explode :: "'g shapely \<Rightarrow> 'g \<Rightarrow> 'g list" where
  "explode G g = (if is_multi G g then geoms G g else [g])"

text \<open>\<^verbatim>\<open>sorted(xs, key=lambda tup: tup[1])[-1]\<close>: Python's sort is stable, as \<open>sort_key\<close> is.\<close>

definition max_by_snd :: "('a \<times> rat) list \<Rightarrow> error + ('a \<times> rat)" where
  "max_by_snd xs = (if xs = [] then Inl IndexError else Inr (last (sort_key snd xs)))"

text \<open>Iterating a Python set built from the list \<open>xs\<close>: each element once, in the
  interpreter's order, which is \<open>set_order G xs\<close>.  Of two occurrences of an element the first
  is kept (\<open>remdups\<close> keeps the last one, hence the two reversals); an element of \<open>xs\<close> that
  \<open>set_order G xs\<close> leaves out comes after the others, so that no element is lost whatever
  \<open>set_order\<close> is.\<close>

definition py_set_list :: "'g shapely \<Rightarrow> nat list \<Rightarrow> nat list" where
  "py_set_list G xs =
     rev (remdups (rev (filter (\<lambda>x. x \<in> set xs) (set_order G xs) @ xs)))"

text \<open>\<^verbatim>\<open>[index_by_id[id(geom)] for geom in STRtree(df["geometry"]).query(q)]\<close>: the labels
  of the rows the tree returns.  The tree is built from the geometries \<open>gs\<close> the frame
  held when the tree was made.\<close>

definition tree_labels :: "'g shapely \<Rightarrow> label list \<Rightarrow> 'g list \<Rightarrow> 'g \<Rightarrow> label list" where
  "tree_labels G idx gs q = map (\<lambda>k. idx ! k) (filter (\<lambda>k. k < length idx) (strtree_query G gs q))"

definition snapshot :: "'g frame \<Rightarrow> 'g list" where
  "snapshot df = map (geometry df) (findex df)"

definition query :: "'g shapely \<Rightarrow> 'g frame \<Rightarrow> 'g \<Rightarrow> label list" where
  "query G df q = tree_labels G (findex df) (snapshot df) q"


section \<open>Adjacencies and intersections\<close>

text \<open>
  The functions of the source test \<^verbatim>\<open>isinstance(df, gpd.GeoDataFrame)\<close> first and raise
  \<^verbatim>\<open>TypeError\<close> otherwise; here the argument is a frame by its type.  A row of the result of
  \<^verbatim>\<open>intersections_jc\<close> is (source, target, geometry); a row of \<^verbatim>\<open>adjacencies_jc\<close> is
  (i, j, geometry) for the parent indices \<^verbatim>\<open>{i, j}\<close>, \<open>i < j\<close>.
\<close>

definition adjacencies_jc :: "'g shapely \<Rightarrow> 'g frame \<Rightarrow> string \<Rightarrow> error + (label \<times> label \<times> 'g) list" where
  "adjacencies_jc G df adjacency_type =
     (if adjacency_type \<noteq> ''rook'' \<and> adjacency_type \<noteq> ''queen'' then Inl ValueError
      else Inr (concat (map (\<lambda>i.
             map (\<lambda>j. (i, j, intersection G (geometry df j) (geometry df i)))
               (filter (\<lambda>j. \<not> is_empty G (intersection G (geometry df j) (geometry df i))
                         \<and> (adjacency_type = ''queen''
                              \<or> glength G (intersection G (geometry df j) (geometry df i)) > 0))
                  (filter (\<lambda>j. j > i) (query G df (geometry df i)))))
             (findex df))))"

definition intersections_jc :: "'g shapely \<Rightarrow> (label \<times> 'g) list \<Rightarrow> 'g frame \<Rightarrow> (label \<times> label \<times> 'g) list" where
  "intersections_jc G sources targets =
     concat (map (\<lambda>(i, sg).
        map (\<lambda>j. (i, j, intersection G sg (geometry targets j)))
          (filter (\<lambda>j. \<not> is_empty G (intersection G sg (geometry targets j)))
             (sort (query G targets sg))))
        sources)"

section \<open>Arrangement Builder and Overlap Classifier: \<^verbatim>\<open>building_blocks_jc\<close>\<close>

record 'g piece =
  polygon_indices :: "label list"
  piece_geometry :: 'g

text \<open>The owner set of a piece: the polygons at distance 0 of its representative point,
  among those the spatial index returns.  The Python set is kept as a list without
  repetitions.\<close>

definition owners_of :: "'g shapely \<Rightarrow> 'g frame \<Rightarrow> 'g \<Rightarrow> label list" where
  "owners_of G df p =
     foldl (\<lambda>s j. if distance G (representative_point G p) (geometry df j) = 0
                   then List.insert j s else s)
       [] (query G df p)"

definition overlap_degree :: "'g piece \<Rightarrow> nat" where
  "overlap_degree p = length (polygon_indices p)"

definition building_blocks_jc ::
  "'g shapely \<Rightarrow> nat \<Rightarrow> 'g world \<Rightarrow> ('g, 'g piece list list \<times> (label \<times> 'g) list) res" where
  "building_blocks_jc G geometries0_df w0 =
    (let w1 = enter ArrangementBuilder w0;
         (geometries_df, w2) = df_copy geometries0_df w1;
         df = heap w2 ! geometries_df;
         exploded = concat (map (\<lambda>i. explode G (geometry df i)) (findex df));
         boundaries = map (\<lambda>g. mk_linestring G (exterior_coords G g)) exploded;
         boundaries_union = unary_union G boundaries;
         w3 = say (Print ''Identifying overlaps...'') w2;
         pieces_df = map (\<lambda>g. \<lparr>polygon_indices = owners_of G df g, piece_geometry = g\<rparr>)
                       (polygonize G boundaries_union);
         w4 = enter OverlapClassifier w3;
         holes_df = enumerate 0 (map piece_geometry (filter (\<lambda>p. overlap_degree p = 0) pieces_df))
     in if pieces_df = [] then (Inl ValueError, w4)
        else (Inr (map (\<lambda>i. filter (\<lambda>p. overlap_degree p = i + 1) pieces_df)
                     [0..<foldr max (map overlap_degree pieces_df) 0],
                   holes_df), w4))"

section \<open>Reconstructor: \<^verbatim>\<open>reconstruct_from_overlap_tower_jc\<close>\<close>

definition set_all_geom :: "nat \<Rightarrow> 'g \<Rightarrow> 'g world \<Rightarrow> 'g world" where
  "set_all_geom a g w = w\<lparr>heap := (heap w)[a := (heap w ! a)\<lparr>geometry := (\<lambda>_. g)\<rparr>]\<rparr>"

definition set_cell :: "nat \<Rightarrow> string \<Rightarrow> label \<Rightarrow> val \<Rightarrow> 'g world \<Rightarrow> 'g world" where
  "set_cell a n i v w =
     (case cols (heap w ! a) n of
        None \<Rightarrow> w
      | Some c \<Rightarrow> set_col a n (c(i := v)) w)"

definition nc_val :: "nat option \<Rightarrow> val" where
  "nc_val n = (case n of None \<Rightarrow> NaN | Some k \<Rightarrow> IntV (int k))"

text \<open>Comparisons of two cells of the integer columns; a missing value compares false.\<close>

definition val_gt :: "val \<Rightarrow> val \<Rightarrow> bool" where
  "val_gt a b = (case (a, b) of (IntV x, IntV y) \<Rightarrow> y < x | _ \<Rightarrow> False)"

definition val_eq :: "val \<Rightarrow> val \<Rightarrow> bool" where
  "val_eq a b = (case (a, b) of (IntV x, IntV y) \<Rightarrow> x = y | _ \<Rightarrow> False)"

text \<open>Order-1 pieces go to the polygon they came from (lines 423--426).\<close>

definition assign_first_level :: "'g shapely \<Rightarrow> nat \<Rightarrow> 'g piece \<Rightarrow> unit \<Rightarrow> 'g world \<Rightarrow> ('g, unit) res" where
  "assign_first_level G c p u w =
     (case polygon_indices p of
        [] \<Rightarrow> (Inl IndexError, w)
      | this_poly_ind # _ \<Rightarrow>
          (Inr (), set_geom c this_poly_ind
                     (unary_union G [get_geom w c this_poly_ind, piece_geometry p]) w))"

text \<open>The two component-count columns (lines 432--437).\<close>

definition count_components :: "'g shapely \<Rightarrow> nat \<Rightarrow> nat \<Rightarrow> label \<Rightarrow> 'g world \<Rightarrow> 'g world" where
  "count_components G a0 c ind w =
     set_cell c ''num components refined'' ind (nc_val (num_components_jc G (get_geom w c ind)))
       (set_cell c ''num components orig'' ind (nc_val (num_components_jc G (get_geom w a0 ind))) w)"

text \<open>A disconnected polygon looks at one overlap (lines 468--480).  The state is the
  frame \<^verbatim>\<open>geometries_disconnected_df\<close> (a frame of its own, made by boolean indexing), the
  list \<^verbatim>\<open>overlaps_df_unused_indices\<close> and \<^verbatim>\<open>geom_finished\<close>.\<close>

definition grab_overlap ::
  "'g shapely \<Rightarrow> val \<Rightarrow> 'g piece list \<Rightarrow> label \<Rightarrow> 'g frame \<times> nat list \<times> bool \<Rightarrow> nat
     \<Rightarrow> 'g frame \<times> nat list \<times> bool" where
  "grab_overlap G orig overlaps_df g_ind st o_ind =
     (case st of (disc, unused, geom_finished) \<Rightarrow>
        let ov = overlaps_df ! o_ind;
            inter = intersection G (geometry disc g_ind) (piece_geometry ov)
        in if \<not> geom_finished \<and> g_ind \<in> set (polygon_indices ov) \<and> \<not> is_empty G inter
              \<and> glength G inter > 0
           then let disc' = disc\<lparr>geometry := (geometry disc)
                               (g_ind := unary_union G [geometry disc g_ind, piece_geometry ov])\<rparr>
                in (disc', remove1 o_ind unused,
                    val_eq (nc_val (num_components_jc G (geometry disc' g_ind))) orig)
           else st)"

text \<open>One disconnected polygon at one level (lines 459--485).\<close>

definition first_dibs ::
  "'g shapely \<Rightarrow> nat \<Rightarrow> 'g piece list \<Rightarrow> label \<Rightarrow> 'g frame \<times> nat list \<Rightarrow> 'g world
     \<Rightarrow> ('g, 'g frame \<times> nat list) res" where
  "first_dibs G c overlaps_df g_ind st w =
     (case st of (disc, unused) \<Rightarrow>
        let possible_overlap_indices_0 =
              filter (\<lambda>k. k < length overlaps_df)
                (strtree_query G (map piece_geometry overlaps_df) (geometry disc g_ind));
            possible_overlap_indices =
              py_set_list G (filter (\<lambda>k. k \<in> set unused) possible_overlap_indices_0)
        in (case foldl (grab_overlap G (get_col w c ''num components orig'' g_ind) overlaps_df g_ind)
                   (disc, unused, False) possible_overlap_indices of
              (disc', unused', geom_finished) \<Rightarrow>
                (Inr (if geom_finished then disc'\<lparr>findex := removeAll g_ind (findex disc')\<rparr> else disc',
                      unused'),
                 set_geom c g_ind (geometry disc' g_ind) w)))"

text \<open>One unused overlap goes to the owner with the greatest shared perimeter
  (lines 495--517).  The \<^verbatim>\<open>else\<close> branch prints the undefined name \<^verbatim>\<open>multi_index\<close>.\<close>

definition glue_overlap ::
  "'g shapely \<Rightarrow> nat \<Rightarrow> 'g list \<Rightarrow> 'g piece list \<Rightarrow> nat \<Rightarrow> unit \<Rightarrow> 'g world \<Rightarrow> ('g, unit) res" where
  "glue_overlap G c tree overlaps_df o_ind u w =
     (let this_overlap = piece_geometry (overlaps_df ! o_ind);
          possible_geom_indices = tree_labels G (findex (heap w ! c)) tree this_overlap;
          shared_perimeters =
            map (\<lambda>g_ind. (g_ind, glength G (intersection G (boundary G this_overlap)
                                               (boundary G (get_geom w c g_ind)))))
              (filter (\<lambda>g_ind. g_ind \<in> set (polygon_indices (overlaps_df ! o_ind))
                         \<and> \<not> is_empty G (intersection G (boundary G this_overlap)
                                            (boundary G (get_geom w c g_ind))))
                 possible_geom_indices)
      in if shared_perimeters \<noteq> [] then
           (case max_by_snd shared_perimeters of
              Inl e \<Rightarrow> (Inl e, w)
            | Inr max_shared_perim \<Rightarrow>
                (Inr (), set_geom c (fst max_shared_perim)
                           (unary_union G [get_geom w c (fst max_shared_perim), this_overlap]) w))
         else (Inl (NameError ''multi_index''), w))"

text \<open>One level of the tower (the body of the loop of line 451).\<close>

definition assign_level ::
  "'g shapely \<Rightarrow> nat \<Rightarrow> 'g piece list list \<Rightarrow> nat \<Rightarrow> 'g frame \<Rightarrow> 'g world \<Rightarrow> ('g, 'g frame) res" where
  "assign_level G c overlap_tower i disc w =
     (let overlaps_df = overlap_tower ! i
      in and_then (for_each (findex disc) (first_dibs G c overlaps_df)
                     (disc, [0..<length overlaps_df]) w)
           (\<lambda>st w1. let tree = snapshot (heap w1 ! c);
                        w2 = say (PrintAssigningOrder (i + 1)) w1
                    in and_then (for_each (snd st) (glue_overlap G c tree overlaps_df) () w2)
                         (\<lambda>_ w3. (Inr (fst st), w3))))"

definition reconstruct_from_overlap_tower_jc ::
  "'g shapely \<Rightarrow> nat \<Rightarrow> 'g piece list list \<Rightarrow> 'g world \<Rightarrow> ('g, nat) res" where
  "reconstruct_from_overlap_tower_jc G geometries0_df overlap_tower w0 =
    (let w1 = enter Reconstructor w0;
         (c, w2) = df_copy geometries0_df w1;
         w3 = set_all_geom c (mk_polygon G []) w2
     in if overlap_tower = [] then (Inl IndexError, w3)
        else and_then (for_each (overlap_tower ! 0) (assign_first_level G c) () w3)
          (\<lambda>_ w4.
             let w5 = set_col c ''num components refined'' (\<lambda>_. IntV 0)
                        (set_col c ''num components orig'' (\<lambda>_. IntV 0) w4);
                 w6 = fold (count_components G geometries0_df c) (findex (heap w5 ! c)) w5;
                 geometries_disconnected_df =
                   (heap w6 ! c)\<lparr>findex :=
                      filter (\<lambda>i. val_gt (get_col w6 c ''num components refined'' i)
                                         (get_col w6 c ''num components orig'' i))
                        (findex (heap w6 ! c))\<rparr>
             in and_then (for_each [1..<length overlap_tower] (assign_level G c overlap_tower)
                            geometries_disconnected_df w6)
                  (\<lambda>_ w7.
                     let (reconstructed_df, w8) = df_copy c w7
                     in (Inr reconstructed_df,
                         del_col reconstructed_df ''num components refined''
                           (del_col reconstructed_df ''num components orig'' w8)))))"


section \<open>Gap Closer: \<^verbatim>\<open>partial_fill_data_jc\<close> and \<^verbatim>\<open>close_gaps_jc\<close>\<close>

text \<open>A row of \<^verbatim>\<open>hole_boundaries_df\<close> after \<^verbatim>\<open>explode().reset_index(drop=True)\<close>: its label,
  the hole (source), the polygon (target) and the geometry of the shared boundary.\<close>

record 'g brow =
  b_ind :: nat
  source :: label
  target :: label
  bgeom :: 'g

datatype 'g attempt = Found "label option" 'g "'g list" | NotFound "'g list option"

text \<open>The candidate connecting segments of a pair of boundary rows, ordered by length and
  kept when the hole or its boundary contains them (lines 651--692).\<close>

definition sorted_line_segments :: "'g shapely \<Rightarrow> 'g \<Rightarrow> 'g brow \<Rightarrow> 'g brow \<Rightarrow> error + 'g list" where
  "sorted_line_segments G hole r0 r1 =
     (let boundary_point_coords = [coords G (bgeom r0), coords G (bgeom r1)]
      in if coords G (bgeom r0) = [] \<or> coords G (bgeom r1) = [] then Inl IndexError
         else
           let vertices = map (\<lambda>cs. [mk_point G (hd cs), mk_point G (last cs)]) boundary_point_coords;
               pair = (\<lambda>i j. nearest_points G (vertices ! i ! j)
                                (mk_multipoint G (boundary_point_coords ! (1 - i))));
               dist = (\<lambda>i j. distance G (fst (pair i j)) (snd (pair i j)));
               sorted_distances =
                 sort_key (\<lambda>t. snd (snd t))
                   [(0, 0, dist 0 0), (0, 1, dist 0 1), (1, 0, dist 1 0), (1, 1, dist 1 1)];
               sorted_line_segments_0 =
                 map (\<lambda>t. mk_linestring_pts G [fst (pair (fst t) (fst (snd t))),
                                               snd (pair (fst t) (fst (snd t)))])
                   sorted_distances
           in Inr (filter (\<lambda>s. contains G hole s \<or> contains G (boundary G hole) s)
                     sorted_line_segments_0))"

text \<open>The first disjoint pair of segments, in the order of the two nested loops
  (lines 697--702).\<close>

definition find_line_pair :: "'g shapely \<Rightarrow> 'g list \<Rightarrow> (nat \<times> nat) option" where
  "find_line_pair G segs =
     find (\<lambda>(i, j). disjoint G (segs ! i) (segs ! j))
       (concat (map (\<lambda>j. map (\<lambda>i. (i, j)) [0..<j]) [1..<length segs]))"

text \<open>One turn of the \<^verbatim>\<open>while\<close> loop for the closest remaining pair (lines 639--738).
  The variable \<^verbatim>\<open>second_split\<close> keeps its value from one turn to the next and is unbound
  before its first assignment; \<^verbatim>\<open>poly_to_add_to\<close> stays unbound when the two lengths are
  equal.\<close>

definition attempt_pair ::
  "'g shapely \<Rightarrow> 'g \<Rightarrow> 'g list option \<Rightarrow> 'g brow \<times> 'g brow \<times> rat \<Rightarrow> error + 'g attempt" where
  "attempt_pair G hole second_split d =
     (let r0 = fst d; r1 = fst (snd d)
      in case sorted_line_segments G hole r0 r1 of
           Inl e \<Rightarrow> Inl e
         | Inr segs \<Rightarrow>
            (case find_line_pair G segs of
               None \<Rightarrow> Inr (NotFound second_split)
             | Some (i, j) \<Rightarrow>
                 let first_split = split_op G hole (segs ! i);
                     st1 = foldl (\<lambda>(ss, nh) f.
                                    if intersects G f (segs ! j)
                                    then (Some (split_op G f (segs ! j)), nh)
                                    else (ss, nh @ [f]))
                             (second_split, []) first_split
                 in (case fst st1 of
                       None \<Rightarrow> Inl (UnboundLocalError ''second_split'')
                     | Some ss \<Rightarrow>
                         let st2 = foldl (\<lambda>(pc, nh) f.
                                            if intersects G f (segs ! i)
                                            then (Some f, nh)
                                            else (pc, nh @ [f]))
                                     (None, snd st1) ss
                         in (case fst st2 of
                               None \<Rightarrow> Inr (NotFound (Some ss))
                             | Some piece_to_connect \<Rightarrow>
                                 let l0 = glength G (intersection G piece_to_connect (bgeom r0));
                                     l1 = glength G (intersection G piece_to_connect (bgeom r1))
                                 in Inr (Found (if l0 > l1 then Some (target r0)
                                                else if l0 < l1 then Some (target r1)
                                                else None)
                                           piece_to_connect (snd st2))))))"

fun try_pairs ::
  "'g shapely \<Rightarrow> 'g \<Rightarrow> 'g list option \<Rightarrow> ('g brow \<times> 'g brow \<times> rat) list \<Rightarrow> error + 'g attempt" where
  "try_pairs G hole second_split [] = Inr (NotFound second_split)"
| "try_pairs G hole second_split (d # ds) =
     (case attempt_pair G hole second_split d of
        Inl e \<Rightarrow> Inl e
      | Inr (Found p piece nh) \<Rightarrow> Inr (Found p piece nh)
      | Inr (NotFound ss) \<Rightarrow> try_pairs G hole ss ds)"

definition partial_fill_data_jc ::
  "'g shapely \<Rightarrow> 'g \<Rightarrow> 'g brow list \<Rightarrow> error + (label \<times> 'g \<times> 'g list)" where
  "partial_fill_data_jc G hole hole_boundaries_df =
     (let poly_distances =
            concat (map (\<lambda>ri. map (\<lambda>rj. (ri, rj, distance G (bgeom ri) (bgeom rj)))
                               (filter (\<lambda>rj. b_ind rj > b_ind ri
                                          \<and> distance G (bgeom ri) (bgeom rj) \<noteq> 0)
                                  hole_boundaries_df))
                      hole_boundaries_df);
          distance_data_sorted = sort_key (\<lambda>t. snd (snd t)) poly_distances
      in case try_pairs G hole None distance_data_sorted of
           Inl e \<Rightarrow> Inl e
         | Inr (Found None piece nh) \<Rightarrow> Inl (UnboundLocalError ''poly_to_add_to'')
         | Inr (Found (Some poly_to_add_to) piece_to_connect new_holes) \<Rightarrow>
             Inr (poly_to_add_to, piece_to_connect, new_holes)
         | Inr (NotFound ss) \<Rightarrow>
             (case max_by_snd (map (\<lambda>r. (r, glength G (bgeom r))) hole_boundaries_df) of
                Inl e \<Rightarrow> Inl e
              | Inr max_shared_perim \<Rightarrow> Inr (target (fst max_shared_perim), hole, [])))"

text \<open>\<^verbatim>\<open>intersections_jc(holes_df, geometries_df)\<close> with every \<^verbatim>\<open>MultiLineString\<close> merged,
  exploded and re-indexed (lines 541--549).\<close>

definition merged_parts :: "'g shapely \<Rightarrow> 'g \<Rightarrow> 'g list" where
  "merged_parts G g = explode G (if geom_type G g = MultiLineString then linemerge G g else g)"

definition hole_boundaries :: "'g shapely \<Rightarrow> (label \<times> 'g) list \<Rightarrow> 'g frame \<Rightarrow> 'g brow list" where
  "hole_boundaries G holes_df df =
     map (\<lambda>(b, s, t, g). \<lparr>b_ind = b, source = s, target = t, bgeom = g\<rparr>)
       (enumerate 0 (concat (map (\<lambda>(s, t, g). map (\<lambda>p. (s, t, p)) (merged_parts G g))
                               (intersections_jc G holes_df df))))"

text \<open>The body of the loop over the holes (lines 557--592).  The state is \<^verbatim>\<open>holes_df\<close>,
  \<^verbatim>\<open>activity_this_round\<close> and \<^verbatim>\<open>new_holes\<close>.  \<^verbatim>\<open>partial_fill_data_jc\<close> never returns
  \<^verbatim>\<open>None\<close> for the polygon, so the test of line 583 always holds.\<close>

definition fill_hole ::
  "'g shapely \<Rightarrow> nat \<Rightarrow> 'g brow list \<Rightarrow> label \<times> 'g \<Rightarrow> (label \<times> 'g) list \<times> bool \<times> 'g list
     \<Rightarrow> 'g world \<Rightarrow> ('g, (label \<times> 'g) list \<times> bool \<times> 'g list) res" where
  "fill_hole G c hole_boundaries_df h st w =
     (case st of (holes_df, activity_this_round, new_holes) \<Rightarrow>
        let h_ind = fst h; this_hole = snd h;
            this_hole_boundaries_df = filter (\<lambda>r. source r = h_ind) hole_boundaries_df
        in if length (remdups (map target this_hole_boundaries_df)) \<le> 3 then
             (case max_by_snd
                     (map (\<lambda>r. (r, glength G (intersection G (boundary G this_hole)
                                                (boundary G (get_geom w c (target r))))))
                        this_hole_boundaries_df) of
                Inl e \<Rightarrow> (Inl e, w)
              | Inr max_shared_perim \<Rightarrow>
                  let poly_to_add_to = target (fst max_shared_perim)
                  in (Inr (filter (\<lambda>x. fst x \<noteq> h_ind) holes_df, True, new_holes),
                      set_geom c poly_to_add_to
                        (unary_union G [get_geom w c poly_to_add_to, this_hole]) w))
           else
             (case partial_fill_data_jc G this_hole this_hole_boundaries_df of
                Inl e \<Rightarrow> (Inl e, w)
              | Inr (poly_to_add_to, piece_to_connect, new_holes_this_time) \<Rightarrow>
                  (Inr (filter (\<lambda>x. fst x \<noteq> h_ind) holes_df,
                        activity_this_round \<or> new_holes_this_time \<noteq> [],
                        new_holes @ new_holes_this_time),
                   set_geom c poly_to_add_to
                     (unary_union G [get_geom w c poly_to_add_to, piece_to_connect]) w)))"

text \<open>\<^verbatim>\<open>holes_df.append(..., ignore_index=True)\<close> for each new hole (lines 595--597).\<close>

definition append_holes :: "(label \<times> 'g) list \<Rightarrow> 'g list \<Rightarrow> (label \<times> 'g) list" where
  "append_holes holes_df new_holes =
     (if new_holes = [] then holes_df else enumerate 0 (map snd holes_df @ new_holes))"

text \<open>The \<^verbatim>\<open>while fill_complete == False\<close> loop.  Nothing in the source bounds the number
  of rounds, so the loop is a partial function: \<open>None\<close> is a run that never ends.\<close>

partial_function (option) gap_loop ::
  "'g shapely \<Rightarrow> nat \<Rightarrow> (label \<times> 'g) list \<Rightarrow> 'g world \<Rightarrow> ('g, unit) res option" where
  "gap_loop G c holes_df w =
     (case for_each holes_df (fill_hole G c (hole_boundaries G holes_df (heap w ! c)))
             (holes_df, False, []) w of
        (Inl e, w') \<Rightarrow> Some (Inl e, w')
      | (Inr (holes_df', activity_this_round, new_holes), w') \<Rightarrow>
          if activity_this_round then gap_loop G c (append_holes holes_df' new_holes) w'
          else Some (Inr (), w'))"

definition close_gaps_jc ::
  "'g shapely \<Rightarrow> nat \<Rightarrow> (label \<times> 'g) list \<Rightarrow> 'g world \<Rightarrow> ('g, nat) res option" where
  "close_gaps_jc G geometries0_df holes0_df w0 =
     (let w1 = enter GapCloser w0;
          (geometries_df, w2) = df_copy geometries0_df w1
      in case gap_loop G geometries_df holes0_df w2 of
           None \<Rightarrow> None
         | Some (Inl e, w3) \<Rightarrow> Some (Inl e, w3)
         | Some (Inr _, w3) \<Rightarrow> Some (Inr geometries_df, w3))"


section \<open>Rook-to-Queen Converter: \<^verbatim>\<open>small_rook_to_queen_jc\<close>\<close>

text \<open>Lines 771--778: points are removed from a \<^verbatim>\<open>GeometryCollection\<close> and a
  \<^verbatim>\<open>MultiLineString\<close> is merged.\<close>

definition clean_adjacency :: "'g shapely \<Rightarrow> 'g \<Rightarrow> 'g" where
  "clean_adjacency G g =
     (let g1 = (if geom_type G g = GeometryCollection
                then mk_multilinestring G (filter (\<lambda>x. geom_type G x \<noteq> Point) (geoms G g))
                else g)
      in if geom_type G g1 = MultiLineString then linemerge G g1 else g1)"

text \<open>Lines 768--791: the rows of \<^verbatim>\<open>small_adj_df\<close>.\<close>

definition small_adjacencies ::
  "'g shapely \<Rightarrow> 'g frame \<Rightarrow> rat \<Rightarrow> error + (label \<times> label \<times> 'g) list" where
  "small_adjacencies G df min_rook_length =
     (case adjacencies_jc G df ''rook'' of
        Inl e \<Rightarrow> Inl e
      | Inr adj_df \<Rightarrow>
          Inr (filter (\<lambda>(i, j, g). glength G g < min_rook_length)
                 (filter (\<lambda>(i, j, g). geom_type G g \<noteq> Point)
                    (concat (map (\<lambda>(i, j, g). map (\<lambda>p. (i, j, p)) (explode G (clean_adjacency G g)))
                               adj_df)))))"

text \<open>The body of the loop over the small adjacencies (lines 794--891).\<close>

definition rook_to_queen_step ::
  "'g shapely \<Rightarrow> nat \<Rightarrow> rat \<Rightarrow> label \<times> label \<times> 'g \<Rightarrow> unit \<Rightarrow> 'g world \<Rightarrow> ('g, unit) res" where
  "rook_to_queen_step G c min_rook_length a u w =
     (let geoms_for_this_adj = py_set_list G [fst a, fst (snd a)];
          this_adj = snd (snd a)
      in if length geoms_for_this_adj < 2 then (Inl IndexError, w)
         else
           let adj_len = glength G (intersection G (get_geom w c (geoms_for_this_adj ! 0))
                                      (get_geom w c (geoms_for_this_adj ! 1)))
           in if adj_len > 0 \<and> adj_len < min_rook_length then
                let tree = snapshot (heap w ! c);
                    idx = findex (heap w ! c);
                    adj_diam = glength G this_adj;
                    fat_point_radius = (6 / 10) * adj_diam;
                    adjacency_points = coords G this_adj
                in if adjacency_points = [] then (Inl IndexError, w)
                   else
                     let midpoint = centroid G (mk_linestring G [hd adjacency_points,
                                                                 last adjacency_points])
                     in if coords G midpoint = [] then (Inl IndexError, w)
                        else
                          let midpoint_coords = hd (coords G midpoint);
                              disk_to_remove = buffer G midpoint fat_point_radius;
                              possible_geom_indices =
                                tree_labels G idx tree (buffer G this_adj (2 * fat_point_radius));
                              boundaries =
                                map (\<lambda>i. boundary G (get_geom w c i)) possible_geom_indices
                                  @ [mk_linestring G (exterior_coords G disk_to_remove)];
                              boundaries_union = unary_union G boundaries;
                              pieces_df =
                                map (\<lambda>g. \<lparr>polygon_indices = owners_of G (heap w ! c) g,
                                          piece_geometry = g\<rparr>)
                                  (polygonize G boundaries_union);
                              inside = (\<lambda>p. distance G (representative_point G (piece_geometry p))
                                              midpoint < fat_point_radius);
                              disk_rebuilt =
                                foldl (\<lambda>d p. unary_union G [d, piece_geometry p]) (mk_polygon G [])
                                  (filter inside pieces_df);
                              w1 = fold (\<lambda>g_ind. set_geom c g_ind (mk_polygon G []))
                                     possible_geom_indices w;
                              w2 = fold (\<lambda>p w'.
                                           if length (polygon_indices p) = 1
                                              \<and> hd (polygon_indices p) \<in> set possible_geom_indices
                                           then set_geom c (hd (polygon_indices p))
                                                  (unary_union G [get_geom w' c (hd (polygon_indices p)),
                                                                  piece_geometry p]) w'
                                           else w')
                                     (filter (\<lambda>p. \<not> inside p) pieces_df) w1;
                              possible_geoms = (heap w2 ! c)\<lparr>findex := possible_geom_indices\<rparr>;
                              circle_boundaries_df =
                                concat (map (\<lambda>(s, t, g). map (\<lambda>p. (s, t, p)) (merged_parts G g))
                                          (intersections_jc G [(0, disk_rebuilt)] possible_geoms));
                              w3 = fold (\<lambda>(s, g_ind, arc) w'.
                                           set_geom c g_ind
                                             (unary_union G [get_geom w' c g_ind,
                                                mk_polygon G (coords G arc @ [midpoint_coords])]) w')
                                     circle_boundaries_df w2
                          in (Inr (), w3)
              else (Inr (), w))"

definition small_rook_to_queen_jc :: "'g shapely \<Rightarrow> nat \<Rightarrow> rat \<Rightarrow> 'g world \<Rightarrow> ('g, nat) res" where
  "small_rook_to_queen_jc G geometries0_df min_rook_length w0 =
     (let w1 = enter RookToQueenConverter w0;
          (geometries_df, w2) = df_copy geometries0_df w1
      in case small_adjacencies G (heap w2 ! geometries_df) min_rook_length of
           Inl e \<Rightarrow> (Inl e, w2)
         | Inr small_adj_df \<Rightarrow>
             and_then (for_each small_adj_df (rook_to_queen_step G geometries_df min_rook_length) () w2)
               (\<lambda>_ w3. (Inr geometries_df, w3)))"

section \<open>Main function: \<^verbatim>\<open>repair_gdf_jc\<close>\<close>

text \<open>One small extra component of a polygon goes to the neighbour with the greatest
  shared perimeter (the body of the loop of line 283).  The state is
  \<^verbatim>\<open>component_num_list\<close>.\<close>

definition move_fragment ::
  "'g shapely \<Rightarrow> nat \<Rightarrow> 'g list \<Rightarrow> label \<Rightarrow> (nat \<times> rat) list \<Rightarrow> rat \<Rightarrow> nat \<Rightarrow> nat list
     \<Rightarrow> 'g world \<Rightarrow> ('g, nat list) res" where
  "move_fragment G r tree g_ind component_areas_sorted big_area i component_num_list w =
     (if \<not> i < length component_areas_sorted then (Inl IndexError, w)
      else
        let c_ind = fst (component_areas_sorted ! i);
            this_fragment = geoms G (get_geom w r g_ind) ! c_ind
        in if snd (component_areas_sorted ! i) < (1 / 10000) * big_area then
             let possible_intersect_indices = tree_labels G (findex (heap w ! r)) tree this_fragment;
                 shared_perimeters =
                   map (\<lambda>g_ind2. (g_ind2, glength G (intersection G (boundary G this_fragment)
                                                       (boundary G (get_geom w r g_ind2)))))
                     (filter (\<lambda>g_ind2. g_ind2 \<noteq> g_ind
                                \<and> \<not> is_empty G (intersection G (boundary G this_fragment)
                                                   (boundary G (get_geom w r g_ind2))))
                        possible_intersect_indices)
             in (case max_by_snd shared_perimeters of
                   Inl e \<Rightarrow> (Inl e, w)
                 | Inr max_shared_perim \<Rightarrow>
                     (Inr (remove1 c_ind component_num_list),
                      set_geom r (fst max_shared_perim)
                        (unary_union G [get_geom w r (fst max_shared_perim), this_fragment]) w))
           else (Inr component_num_list, w))"

text \<open>One polygon that got more components (the body of the loop of line 270).\<close>

definition repair_disconnected ::
  "'g shapely \<Rightarrow> nat \<Rightarrow> nat \<Rightarrow> 'g list \<Rightarrow> label \<Rightarrow> unit \<Rightarrow> 'g world \<Rightarrow> ('g, unit) res" where
  "repair_disconnected G geometries0_df r tree g_ind u w =
     (case (num_components_jc G (get_geom w r g_ind),
            num_components_jc G (get_geom w geometries0_df g_ind),
            py_len G (get_geom w r g_ind)) of
        (Some n_new, Some n_orig, Inr n) \<Rightarrow>
          let excess = n_new - n_orig;
              component_areas = map (\<lambda>c_ind. (c_ind, area G (geoms G (get_geom w r g_ind) ! c_ind)))
                                  [0..<n];
              component_areas_sorted = sort_key snd component_areas;
              big_area = max (area G (get_geom w r g_ind)) (area G (get_geom w geometries0_df g_ind))
          in and_then (for_each [0..<excess]
                         (move_fragment G r tree g_ind component_areas_sorted big_area) [0..<n] w)
               (\<lambda>component_num_list w1.
                  if length component_num_list = 1 then
                    (Inr (), set_geom r g_ind
                               (geoms G (get_geom w1 r g_ind) ! (component_num_list ! 0)) w1)
                  else if length component_num_list > 1 then
                    (Inr (), set_geom r g_ind
                               (mk_multipolygon G
                                  (map (\<lambda>c_ind. geoms G (get_geom w1 r g_ind) ! c_ind)
                                     component_num_list)) w1)
                  else (Inr (), say (WarnBadlyDisconnected g_ind) w1))
      | _ \<Rightarrow> (Inl TypeError, w))"

text \<open>The indices of a frame whose component count is greater than in the input
  (lines 261--263 and 313--315); comparing with \<^verbatim>\<open>None\<close> raises.\<close>

definition got_worse :: "'g shapely \<Rightarrow> nat \<Rightarrow> nat \<Rightarrow> 'g world \<Rightarrow> label \<Rightarrow> error + bool" where
  "got_worse G geometries0_df r w ind =
     py_gt (num_components_jc G (get_geom w r ind))
           (num_components_jc G (get_geom w geometries0_df ind))"

definition not_polygon :: "'g shapely \<Rightarrow> nat \<Rightarrow> 'g world \<Rightarrow> label list" where
  "not_polygon G r w = filter (\<lambda>i. geom_type G (get_geom w r i) \<noteq> Polygon) (findex (heap w ! r))"

definition collect_worse ::
  "'g shapely \<Rightarrow> nat \<Rightarrow> nat \<Rightarrow> label \<Rightarrow> label list \<Rightarrow> 'g world \<Rightarrow> ('g, label list) res" where
  "collect_worse G geometries0_df r ind acc w =
     (case got_worse G geometries0_df r w ind of
        Inl e \<Rightarrow> (Inl e, w)
      | Inr b \<Rightarrow> (Inr (if b then acc @ [ind] else acc), w))"

definition warn_worse ::
  "'g shapely \<Rightarrow> nat \<Rightarrow> nat \<Rightarrow> label \<Rightarrow> unit \<Rightarrow> 'g world \<Rightarrow> ('g, unit) res" where
  "warn_worse G geometries0_df r ind u w =
     (case got_worse G geometries0_df r w ind of
        Inl e \<Rightarrow> (Inl e, w)
      | Inr b \<Rightarrow> (Inr (), if b then say (WarnMayHaveBeenDisconnected ind) w else w))"

text \<open>Disconnection Repair: lines 255--315 of \<^verbatim>\<open>repair_gdf_jc\<close>, on the frame
  \<^verbatim>\<open>reconstructed_df\<close> (address \<open>r\<close>), which it changes in place.\<close>

definition disconnection_repair :: "'g shapely \<Rightarrow> nat \<Rightarrow> nat \<Rightarrow> 'g world \<Rightarrow> ('g, unit) res" where
  "disconnection_repair G geometries0_df r w0 =
     (let w1 = enter DisconnectionRepair w0
      in and_then (for_each (not_polygon G r w1) (collect_worse G geometries0_df r) [] w1)
           (\<lambda>disconnected_poly_indices w2.
              and_then (for_each disconnected_poly_indices
                          (repair_disconnected G geometries0_df r (snapshot (heap w2 ! r))) () w2)
                (\<lambda>_ w3. for_each (not_polygon G r w3) (warn_worse G geometries0_df r) () w3)))"

definition repair_gdf_jc ::
  "'g shapely \<Rightarrow> nat \<Rightarrow> bool \<Rightarrow> rat option \<Rightarrow> 'g world \<Rightarrow> ('g, nat) res option" where
  "repair_gdf_jc G geometries0_df close_gaps min_rook_length w0 =
     (let (geometries_df, w1) = df_copy geometries0_df w0;
          w2 = fold (\<lambda>i w. set_geom geometries_df i (force_2d G (get_geom w geometries_df i)) w)
                 (findex (heap w1 ! geometries_df)) w1;
          w3 = (if geographic (heap w2 ! geometries_df) then say WarnGeographicCRS w2 else w2)
      in case building_blocks_jc G geometries_df w3 of
           (Inl e, w4) \<Rightarrow> Some (Inl e, w4)
         | (Inr (overlap_tower, holes_df), w4) \<Rightarrow>
            (case reconstruct_from_overlap_tower_jc G geometries_df overlap_tower
                    (say (Print ''Resolving overlaps...'') w4) of
               (Inl e, w5) \<Rightarrow> Some (Inl e, w5)
             | (Inr reconstructed_df, w5) \<Rightarrow>
                (case (if close_gaps
                       then close_gaps_jc G reconstructed_df holes_df
                              (say (Print ''Closing gaps...'') w5)
                       else Some (Inr reconstructed_df, w5)) of
                   None \<Rightarrow> None
                 | Some (Inl e, w6) \<Rightarrow> Some (Inl e, w6)
                 | Some (Inr reconstructed_df, w6) \<Rightarrow>
                    (case disconnection_repair G geometries0_df reconstructed_df w6 of
                       (Inl e, w7) \<Rightarrow> Some (Inl e, w7)
                     | (Inr _, w7) \<Rightarrow>
                        (case min_rook_length of
                           None \<Rightarrow> Some (Inr reconstructed_df, w7)
                         | Some m \<Rightarrow>
                             Some (small_rook_to_queen_jc G reconstructed_df m
                                     (say (Print ''Converting small rook adjacencies to queen...'')
                                        w7)))))))"

section \<open>Frame conditions\<close>

definition touches_only :: "nat \<Rightarrow> string set \<Rightarrow> 'g world \<Rightarrow> 'g world \<Rightarrow> bool" where
  "touches_only c N w w' \<longleftrightarrow>
     stages w' = stages w \<and> length (heap w') = length (heap w)
     \<and> (\<forall>a. a \<noteq> c \<longrightarrow> heap w' ! a = heap w ! a)
     \<and> findex (heap w' ! c) = findex (heap w ! c)
     \<and> geographic (heap w' ! c) = geographic (heap w ! c)
     \<and> (\<forall>n. n \<notin> N \<longrightarrow> cols (heap w' ! c) n = cols (heap w ! c) n)"

definition grows :: "'g world \<Rightarrow> 'g world \<Rightarrow> bool" where
  "grows w w' \<longleftrightarrow> length (heap w) \<le> length (heap w')
     \<and> (\<forall>a < length (heap w). heap w' ! a = heap w ! a)"

text \<open>The frame at address \<open>c\<close> of \<open>w\<close> is a private copy of the frame at \<open>a0\<close> of \<open>w0\<close>,
  up to its geometry and the columns named in \<open>N\<close>.\<close>

definition copy_of :: "'g world \<Rightarrow> nat \<Rightarrow> string set \<Rightarrow> 'g world \<Rightarrow> nat \<Rightarrow> bool" where
  "copy_of w0 a0 N w c \<longleftrightarrow>
     grows w0 w \<and> length (heap w0) \<le> c \<and> c < length (heap w)
     \<and> findex (heap w ! c) = findex (heap w0 ! a0)
     \<and> geographic (heap w ! c) = geographic (heap w0 ! a0)
     \<and> (\<forall>n. n \<notin> N \<longrightarrow> cols (heap w ! c) n = cols (heap w0 ! a0) n)"

abbreviation "tmp_cols \<equiv> {''num components orig'', ''num components refined''}"

text \<open>The frame at \<open>r\<close> is the input frame up to its geometry, without the two working
  columns of the Reconstructor.\<close>

definition carried :: "'g world \<Rightarrow> nat \<Rightarrow> 'g world \<Rightarrow> nat \<Rightarrow> bool" where
  "carried w0 a0 w r \<longleftrightarrow> copy_of w0 a0 tmp_cols w r
     \<and> cols (heap w ! r) ''num components orig'' = None
     \<and> cols (heap w ! r) ''num components refined'' = None"

definition stage_order :: "bool \<Rightarrow> rat option \<Rightarrow> stage list" where
  "stage_order close_gaps min_rook_length =
     [ArrangementBuilder, OverlapClassifier, Reconstructor]
     @ (if close_gaps then [GapCloser] else [])
     @ [DisconnectionRepair]
     @ (case min_rook_length of None \<Rightarrow> [] | Some m \<Rightarrow> [RookToQueenConverter])"


text \<open>The sum of the areas of the polygons of a dataset.\<close>

definition total_area :: "'g shapely \<Rightarrow> 'g frame \<Rightarrow> rat" where
  "total_area G df = sum_list (map (\<lambda>i. area G (geometry df i)) (findex df))"


section \<open>A finite model of the geometry library\<close>

datatype toy = Area "nat list" | Line "(nat \<times> nat) list"

record tmap =
  faces :: "nat list"
  edge_len :: "((nat \<times> nat) \<times> rat) list"
  face_area :: "(nat \<times> rat) list"

fun tcells :: "toy \<Rightarrow> nat list" where
  "tcells (Area cs) = cs"
| "tcells (Line es) = []"

fun tedges :: "tmap \<Rightarrow> toy \<Rightarrow> (nat \<times> nat) list" where
  "tedges M (Area cs) = map fst (filter (\<lambda>(e, l). (fst e \<in> set cs) \<noteq> (snd e \<in> set cs)) (edge_len M))"
| "tedges M (Line es) = es"

definition adjacent :: "tmap \<Rightarrow> nat \<Rightarrow> nat \<Rightarrow> bool" where
  "adjacent M a b \<longleftrightarrow> (\<exists>(e, l) \<in> set (edge_len M). l > 0 \<and> (e = (a, b) \<or> e = (b, a)))"

definition grow :: "tmap \<Rightarrow> nat list \<Rightarrow> nat list \<Rightarrow> nat list" where
  "grow M cs reached = reached @ filter (\<lambda>c. c \<notin> set reached \<and> (\<exists>d \<in> set reached. adjacent M c d)) cs"

primrec components :: "tmap \<Rightarrow> nat \<Rightarrow> nat list \<Rightarrow> nat list list" where
  "components M 0 cs = []"
| "components M (Suc n) cs =
     (case cs of [] \<Rightarrow> []
      | c # _ \<Rightarrow> (let reached = ((grow M cs) ^^ length cs) [c]
                 in filter (\<lambda>x. x \<in> set reached) cs # components M n (filter (\<lambda>x. x \<notin> set reached) cs)))"

definition toy_intersection :: "tmap \<Rightarrow> toy \<Rightarrow> toy \<Rightarrow> toy" where
  "toy_intersection M a b =
     (if filter (\<lambda>c. c \<in> set (tcells b)) (tcells a) \<noteq> []
      then Area (filter (\<lambda>c. c \<in> set (tcells b)) (tcells a))
      else Line (filter (\<lambda>e. e \<in> set (tedges M b)) (tedges M a)))"

definition toy_shapely :: "tmap \<Rightarrow> toy shapely" where
  "toy_shapely M =
    \<lparr> is_empty = (\<lambda>g. tcells g = [] \<and> tedges M g = []),
      geom_type = (\<lambda>g. case g of Area cs \<Rightarrow> (if length (components M (length cs) cs) \<le> 1 then Polygon else MultiPolygon)
                               | Line es \<Rightarrow> LineString),
      geoms = (\<lambda>g. case g of Area cs \<Rightarrow> map Area (components M (length cs) cs) | Line es \<Rightarrow> map (\<lambda>e. Line [e]) es),
      area = (\<lambda>g. sum_list (map (\<lambda>c. case map_of (face_area M) c of None \<Rightarrow> 0 | Some a \<Rightarrow> a) (tcells g))),
      glength = (\<lambda>g. sum_list (map (\<lambda>e. case map_of (edge_len M) e of None \<Rightarrow> 0 | Some l \<Rightarrow> l) (tedges M g))),
      boundary = (\<lambda>g. Line (tedges M g)),
      centroid = (\<lambda>g. g),
      representative_point = (\<lambda>g. g),
      coords = (\<lambda>g. []),
      exterior_coords = (\<lambda>g. []),
      buffer = (\<lambda>g r. g),
      intersection = toy_intersection M,
      distance = (\<lambda>a b. if (case (a, b) of (Area x, Area y) \<Rightarrow> filter (\<lambda>c. c \<in> set y) x \<noteq> [] | _ \<Rightarrow> filter (\<lambda>e. e \<in> set (tedges M b)) (tedges M a) \<noteq> []) then 0 else 1),
      contains = (\<lambda>a b. False),
      disjoint = (\<lambda>a b. False),
      intersects = (\<lambda>a b. False),
      nearest_points = (\<lambda>a b. (a, b)),
      unary_union = (\<lambda>gs. if \<forall>g \<in> set gs. (case g of Line _ \<Rightarrow> True | _ \<Rightarrow> False) then Line (remdups (concat (map (tedges M) gs)))
                           else Area (sort (remdups (concat (map tcells gs))))),
      polygonize = (\<lambda>g. map (\<lambda>c. Area [c]) (faces M)),
      linemerge = (\<lambda>g. g),
      split_op = (\<lambda>g l. [g]),
      force_2d = (\<lambda>g. g),
      mk_polygon = (\<lambda>cs. Area []),
      mk_multipolygon = (\<lambda>gs. Area (concat (map tcells gs))),
      mk_point = (\<lambda>c. Line []),
      mk_multipoint = (\<lambda>cs. Line []),
      mk_linestring = (\<lambda>cs. Line []),
      mk_linestring_pts = (\<lambda>gs. Line []),
      mk_multilinestring = (\<lambda>gs. Line (concat (map (tedges M) gs))),
      strtree_query = (\<lambda>gs q. filter (\<lambda>k. \<not> (tcells (gs ! k) = [] \<and> tedges M (gs ! k) = [])) [0..<length gs]),
      set_order = sort \<rparr>"

section \<open>Example datasets\<close>

text \<open>One square, its four sides of length 1 each on the outside.\<close>

definition square_map :: tmap where
  "square_map = \<lparr> faces = [0], edge_len = [((0, 99), 4)], face_area = [(0, 1)] \<rparr>"

definition square_df :: "toy frame" where
  "square_df = \<lparr> findex = [0], geometry = (\<lambda>i. if i = 0 then Area [0] else Area []),
           cols = Map.empty, geographic = False \<rparr>"

definition square_world :: "toy world" where
  "square_world = \<lparr> heap = [square_df], stdout = [], stages = [] \<rparr>"

text \<open>The same square with two attribute columns, one of them named as the Reconstructor names
  its working column.\<close>

definition square_attr_df :: "toy frame" where
  "square_attr_df = \<lparr> findex = [0], geometry = (\<lambda>i. if i = 0 then Area [0] else Area []),
            cols = [''NAME'' \<mapsto> (\<lambda>i. TextV ''a''), ''num components orig'' \<mapsto> (\<lambda>i. IntV 7)],
            geographic = False \<rparr>"

definition square_attr_world :: "toy world" where
  "square_attr_world = \<lparr> heap = [square_attr_df], stdout = [], stages = [] \<rparr>"

text \<open>The order of the stages as the specification words it: Disconnection Repair before the
  optional Gap Closer.\<close>

definition spec_stage_order :: "bool \<Rightarrow> rat option \<Rightarrow> stage list" where
  "spec_stage_order close_gaps min_rook_length =
     [ArrangementBuilder, OverlapClassifier, Reconstructor, DisconnectionRepair]
     @ (if close_gaps then [GapCloser] else [])
     @ (case min_rook_length of None \<Rightarrow> [] | Some m \<Rightarrow> [RookToQueenConverter])"

text \<open>Two rows holding the same square.\<close>

definition twin_df :: "toy frame" where
  "twin_df = \<lparr> findex = [0, 1], geometry = (\<lambda>i. if i = 0 \<or> i = 1 then Area [0] else Area []),
               cols = Map.empty, geographic = False \<rparr>"

definition twin_world :: "toy world" where
  "twin_world = \<lparr> heap = [twin_df], stdout = [], stages = [] \<rparr>"

text \<open>Four faces in a ring, each next to the following one and the last one next to the
  first; the faces 0, 1 and 2 also border the outside (face 99), the face 3 does not.  A dataset
  of two overlapping polygons, faces 0, 1 and faces 1, 2, encloses the face 3 as a gap.\<close>

definition quad_map :: tmap where
  "quad_map = \<lparr> faces = [0, 1, 2, 3],
     edge_len = [((0, 1), 1), ((1, 2), 2), ((0, 3), 1), ((2, 3), 2),
                 ((0, 99), 2), ((1, 99), 2), ((2, 99), 2)],
     face_area = [(0, 1), (1, 1), (2, 1), (3, 1)] \<rparr>"






text \<open>The two overlapping polygons around the gap: faces 0, 1 and faces 1, 2 of the ring.\<close>

definition quad_df :: "toy frame" where
  "quad_df = \<lparr> findex = [0, 1],
               geometry = (\<lambda>i. if i = 0 then Area [0, 1] else if i = 1 then Area [1, 2] else Area []),
               cols = Map.empty, geographic = False \<rparr>"

definition quad_world :: "toy world" where
  "quad_world = \<lparr> heap = [quad_df], stdout = [], stages = [] \<rparr>"


section \<open>Loops and sequencing\<close>

lemma and_then_cases:
  assumes "and_then r f = (x, w')"
  obtains (err) e where "r = (Inl e, w')" "x = Inl e"
        | (ok) y w1 where "r = (Inr y, w1)" "f y w1 = (x, w')"
  using assms by (auto simp: and_then_def split: prod.splits sum.splits)

lemma for_each_inv:
  assumes "for_each xs body s w = (Inr s', w')" and "P xs s w"
    and "\<And>x rest s w s' w'. P (x # rest) s w \<Longrightarrow> body x s w = (Inr s', w') \<Longrightarrow> P rest s' w'"
  shows "P [] s' w'"
  using assms(1,2)
proof (induction xs arbitrary: s w)
  case Nil
  then show ?case by simp
next
  case (Cons x xs)
  then show ?case
    by (auto split: prod.splits sum.splits dest: assms(3))
qed

lemma for_each_world:
  assumes "for_each xs body s w = (r, w')"
    and "\<And>x s w r w'. x \<in> set xs \<Longrightarrow> body x s w = (r, w') \<Longrightarrow> R w w'"
    and "\<And>w. R w w" and "\<And>a b c. R a b \<Longrightarrow> R b c \<Longrightarrow> R a c"
  shows "R w w'"
  using assms(1,2)
proof (induction xs arbitrary: s w)
  case Nil
  then show ?case using assms(3) by simp
next
  case (Cons x xs)
  obtain r1 w1 where b: "body x s w = (r1, w1)" by (cases "body x s w")
  have step: "R w w1" using Cons.prems(2)[OF _ b] by simp
  show ?case
  proof (cases r1)
    case (Inl e)
    with b Cons.prems(1) have "w' = w1" by simp
    with step show ?thesis by simp
  next
    case (Inr s1)
    with b Cons.prems(1) have "for_each xs body s1 w1 = (r, w')" by simp
    then have "R w1 w'"
      by (rule Cons.IH) (rule Cons.prems(2), simp_all)
    with step show ?thesis using assms(4) by blast
  qed
qed

lemma fold_world:
  assumes "\<And>x w. R w (f x w)" and "\<And>w. R w w" and "\<And>a b c. R a b \<Longrightarrow> R b c \<Longrightarrow> R a c"
  shows "R w (fold f xs w)"
proof (induction xs arbitrary: w)
  case Nil
  then show ?case using assms(2) by simp
next
  case (Cons x xs)
  show ?case using assms(3)[OF assms(1)[of w x] Cons.IH[of "f x w"]] by simp
qed

section \<open>What a step may change\<close>

lemma touches_only_refl: "touches_only c N w w"
  by (simp add: touches_only_def)

lemma touches_only_trans:
  "touches_only c N w1 w2 \<Longrightarrow> touches_only c N w2 w3 \<Longrightarrow> touches_only c N w1 w3"
  by (simp add: touches_only_def)

lemma touches_only_mono: "touches_only c N w w' \<Longrightarrow> N \<subseteq> N' \<Longrightarrow> touches_only c N' w w'"
  by (auto simp: touches_only_def)

lemma upd_beyond: "\<not> c < length xs \<Longrightarrow> xs[c := y] = xs"
  by (simp add: list_update_beyond)

lemma touches_set_geom: "touches_only c N w (set_geom c i g w)"
  by (cases "c < length (heap w)") (auto simp: touches_only_def set_geom_def nth_list_update upd_beyond)

lemma touches_set_all_geom: "touches_only c N w (set_all_geom c g w)"
  by (cases "c < length (heap w)") (auto simp: touches_only_def set_all_geom_def nth_list_update upd_beyond)

lemma touches_say: "touches_only c N w (say m w)"
  by (simp add: touches_only_def say_def)

lemma touches_set_col: "n \<in> N \<Longrightarrow> touches_only c N w (set_col c n f w)"
  by (cases "c < length (heap w)") (auto simp: touches_only_def set_col_def nth_list_update upd_beyond)

lemma touches_del_col: "n \<in> N \<Longrightarrow> touches_only c N w (del_col c n w)"
  by (cases "c < length (heap w)") (auto simp: touches_only_def del_col_def nth_list_update upd_beyond)

lemma touches_set_cell: "n \<in> N \<Longrightarrow> touches_only c N w (set_cell c n i v w)"
  by (auto simp: set_cell_def touches_only_refl touches_set_col split: option.splits)

lemma touches_assign_first_level:
  "assign_first_level G c p u w = (r, w') \<Longrightarrow> touches_only c N w w'"
  by (auto simp: assign_first_level_def touches_only_refl touches_set_geom split: list.splits)

lemma touches_first_dibs:
  "first_dibs G c ov g st w = (r, w') \<Longrightarrow> touches_only c N w w'"
  by (auto simp: first_dibs_def Let_def touches_set_geom split: prod.splits)

lemma touches_glue_overlap:
  "glue_overlap G c tree ov o_ind u w = (r, w') \<Longrightarrow> touches_only c N w w'"
  by (auto simp: glue_overlap_def Let_def touches_only_refl touches_set_geom
           split: if_splits sum.splits)

lemma touches_for_each:
  assumes "for_each xs body s w = (r, w')"
    and "\<And>x s w r w'. body x s w = (r, w') \<Longrightarrow> touches_only c N w w'"
  shows "touches_only c N w w'"
  using assms(1)
  by (rule for_each_world[where R = "touches_only c N"])
     (auto intro: assms(2) touches_only_refl touches_only_trans)

lemma touches_fold:
  assumes "\<And>x w. touches_only c N w (f x w)"
  shows "touches_only c N w (fold f xs w)"
  by (rule fold_world[where R = "touches_only c N"])
     (auto intro: assms touches_only_refl touches_only_trans)

lemma touches_assign_level:
  assumes "assign_level G c tower i disc w = (r, w')"
  shows "touches_only c N w w'"
  using assms unfolding assign_level_def Let_def
proof (cases rule: and_then_cases)
  case (err e)
  from err(1) show ?thesis by (rule touches_for_each) (rule touches_first_dibs)
next
  case (ok st w1)
  from ok(1) have a: "touches_only c N w w1"
    by (rule touches_for_each) (rule touches_first_dibs)
  from ok(2) have "touches_only c N (say (PrintAssigningOrder (i + 1)) w1) w'"
  proof (cases rule: and_then_cases)
    case (err e)
    from err(1) show ?thesis by (rule touches_for_each) (rule touches_glue_overlap)
  next
    case (ok y w3)
    from ok(2) have "w3 = w'" by simp
    with ok(1) show ?thesis by (auto elim!: touches_for_each intro: touches_glue_overlap)
  qed
  with a touches_say[of c N w1] show ?thesis by (blast intro: touches_only_trans)
qed

lemma grows_refl: "grows w w"
  by (simp add: grows_def)

lemma grows_trans: "grows w1 w2 \<Longrightarrow> grows w2 w3 \<Longrightarrow> grows w1 w3"
  by (auto simp: grows_def)

lemma grows_say: "grows w (say m w)"
  by (simp add: grows_def say_def)

lemma grows_enter: "grows w (enter s w)"
  by (simp add: grows_def enter_def)

lemma grows_df_copy: "grows w (snd (df_copy a w))"
  by (simp add: grows_def df_copy_def nth_append)

lemma grows_touches:
  "grows w0 w \<Longrightarrow> length (heap w0) \<le> c \<Longrightarrow> touches_only c N w w' \<Longrightarrow> grows w0 w'"
  by (auto simp: grows_def touches_only_def)

lemma copy_of_touches:
  "copy_of w0 a0 N w c \<Longrightarrow> touches_only c N w w' \<Longrightarrow> copy_of w0 a0 N w' c"
  by (auto simp: copy_of_def touches_only_def grows_def)

lemma copy_of_mono: "copy_of w0 a0 N w c \<Longrightarrow> N \<subseteq> N' \<Longrightarrow> copy_of w0 a0 N' w c"
  by (auto simp: copy_of_def)

lemma copy_of_grows: "copy_of w0 a0 N w c \<Longrightarrow> grows w0 w"
  by (simp add: copy_of_def)

lemma copy_of_df_copy:
  assumes "grows w0 w" "a < length (heap w0)" "df_copy a w = (c, w')"
  shows "copy_of w0 a {} w' c"
  using assms by (auto simp: copy_of_def grows_def df_copy_def nth_append)

lemma copy_of_copy:
  assumes "copy_of w0 a0 N w c" "df_copy c w = (r, w')"
  shows "copy_of w0 a0 N w' r"
  using assms by (auto simp: copy_of_def grows_def df_copy_def nth_append)

lemma copy_of_other:
  "copy_of w0 a0 N w c \<Longrightarrow> touches_only d N' w w' \<Longrightarrow> d \<noteq> c \<Longrightarrow> length (heap w0) \<le> d
     \<Longrightarrow> copy_of w0 a0 N w' c"
  by (auto simp: copy_of_def touches_only_def grows_def)

lemma stages_touches: "touches_only c N w w' \<Longrightarrow> stages w' = stages w"
  by (simp add: touches_only_def)

lemma stages_df_copy: "df_copy a w = (c, w') \<Longrightarrow> stages w' = stages w"
  by (auto simp: df_copy_def)

lemma copy_of_del_col:
  assumes "copy_of w0 a0 N w c" "n \<in> N"
  shows "copy_of w0 a0 N (del_col c n w) c \<and> cols (heap (del_col c n w) ! c) n = None
         \<and> (\<forall>m. cols (heap w ! c) m = None \<longrightarrow> cols (heap (del_col c n w) ! c) m = None)"
  using assms by (auto simp: copy_of_def del_col_def grows_def nth_list_update)

lemma copy_of_fresh: "df_copy a w = (c, w') \<Longrightarrow> copy_of w a {} w' c"
  by (auto simp: copy_of_def grows_def df_copy_def nth_append)

lemma copy_of_compose:
  "copy_of w0 a0 N w c \<Longrightarrow> copy_of w c N' w' r \<Longrightarrow> copy_of w0 a0 (N \<union> N') w' r"
  by (auto simp: copy_of_def grows_def)

lemma copy_of_later:
  "grows w0 w \<Longrightarrow> a0 < length (heap w0) \<Longrightarrow> copy_of w a0 N w' c \<Longrightarrow> copy_of w0 a0 N w' c"
  by (auto simp: copy_of_def grows_def)

lemma stages_enter: "stages (enter s w) = stages w @ [s]"
  by (simp add: enter_def)

lemma stages_say: "stages (say m w) = stages w"
  by (simp add: say_def)

lemma heap_enter: "heap (enter s w) = heap w"
  by (simp add: enter_def)

lemma heap_say: "heap (say m w) = heap w"
  by (simp add: say_def)

lemma copy_of_enter: "copy_of w0 a0 N w c \<Longrightarrow> copy_of w0 a0 N (enter s w) c"
  by (simp add: copy_of_def grows_def enter_def)

lemma copy_of_say: "copy_of w0 a0 N w c \<Longrightarrow> copy_of w0 a0 N (say m w) c"
  by (simp add: copy_of_def grows_def say_def)

lemma copy_of_from_enter: "copy_of (enter s w0) a0 N w c \<Longrightarrow> copy_of w0 a0 N w c"
  by (simp add: copy_of_def grows_def enter_def)

lemma copy_of_from_say: "copy_of (say m w0) a0 N w c \<Longrightarrow> copy_of w0 a0 N w c"
  by (simp add: copy_of_def grows_def say_def)

subsection \<open>Arrangement Builder\<close>

lemma building_blocks_effect:
  assumes "building_blocks_jc G a w = (res, w')"
  shows "grows w w'" and "stages w' = stages w @ [ArrangementBuilder, OverlapClassifier]"
proof -
  obtain c w2 where c: "df_copy a (enter ArrangementBuilder w) = (c, w2)"
    by (cases "df_copy a (enter ArrangementBuilder w)")
  have w': "w' = enter OverlapClassifier (say (Print ''Identifying overlaps...'') w2)"
    using assms c by (auto simp: building_blocks_jc_def Let_def split: if_splits)
  have "grows w w2"
    using grows_df_copy[of "enter ArrangementBuilder w" a] c grows_enter[of w ArrangementBuilder]
    by (auto intro: grows_trans)
  then show "grows w w'"
    unfolding w' by (blast intro: grows_trans grows_say grows_enter)
  show "stages w' = stages w @ [ArrangementBuilder, OverlapClassifier]"
    unfolding w' using stages_df_copy[OF c] by (simp add: stages_enter stages_say)
qed

subsection \<open>Reconstructor\<close>

lemma touches_count_components:
  "touches_only c tmp_cols w (count_components G a0 c ind w)"
  unfolding count_components_def
  by (rule touches_only_trans[OF touches_set_cell touches_set_cell]) simp_all

lemma reconstruct_effect:
  assumes "reconstruct_from_overlap_tower_jc G a tower w = (res, w')"
  shows "grows w w'" and "stages w' = stages w @ [Reconstructor]"
    and "res = Inr r \<Longrightarrow> copy_of w a tmp_cols w' r
           \<and> cols (heap w' ! r) ''num components orig'' = None
           \<and> cols (heap w' ! r) ''num components refined'' = None"
proof -
  obtain c w2 where c: "df_copy a (enter Reconstructor w) = (c, w2)"
    by (cases "df_copy a (enter Reconstructor w)")
  define w3 where "w3 = set_all_geom c (mk_polygon G []) w2"
  have c2: "copy_of w a {} w2 c"
    using copy_of_fresh[OF c] by (rule copy_of_from_enter)
  have s2: "stages w2 = stages w @ [Reconstructor]"
    using stages_df_copy[OF c] by (simp add: stages_enter)
  have c3: "copy_of w a {} w3 c"
    unfolding w3_def using c2 touches_set_all_geom by (rule copy_of_touches)
  have s3: "stages w3 = stages w @ [Reconstructor]"
    unfolding w3_def using s2 stages_touches[OF touches_set_all_geom] by metis
  have all: "grows w w' \<and> stages w' = stages w @ [Reconstructor]
      \<and> (res = Inr r \<longrightarrow> copy_of w a tmp_cols w' r
           \<and> cols (heap w' ! r) ''num components orig'' = None
           \<and> cols (heap w' ! r) ''num components refined'' = None)"
  proof (cases "tower = []")
    case True
    with assms c have "w' = w3" "res = Inl IndexError"
      by (auto simp: reconstruct_from_overlap_tower_jc_def Let_def w3_def)
    with c3 s3 show ?thesis by (auto dest: copy_of_grows)
  next
    case False
    define tail where "tail = (\<lambda>(u::unit) w4.
             let w5 = set_col c ''num components refined'' (\<lambda>_. IntV 0)
                        (set_col c ''num components orig'' (\<lambda>_. IntV 0) w4);
                 w6 = fold (count_components G a c) (findex (heap w5 ! c)) w5;
                 geometries_disconnected_df =
                   (heap w6 ! c)\<lparr>findex :=
                      filter (\<lambda>i. val_gt (get_col w6 c ''num components refined'' i)
                                         (get_col w6 c ''num components orig'' i))
                        (findex (heap w6 ! c))\<rparr>
             in and_then (for_each [1..<length tower] (assign_level G c tower)
                            geometries_disconnected_df w6)
                  (\<lambda>_ w7.
                     let (reconstructed_df, w8) = df_copy c w7
                     in (Inr reconstructed_df,
                         del_col reconstructed_df ''num components refined''
                           (del_col reconstructed_df ''num components orig'' w8))))"
    have eq: "and_then (for_each (tower ! 0) (assign_first_level G c) () w3) tail = (res, w')"
      using assms c False
      by (simp add: reconstruct_from_overlap_tower_jc_def Let_def w3_def tail_def)
    from eq show ?thesis
    proof (cases rule: and_then_cases)
      case (err e)
      from err(1) have "touches_only c {} w3 w'"
        by (rule touches_for_each) (rule touches_assign_first_level)
      with c3 s3 err(2) show ?thesis
        by (auto dest: copy_of_touches copy_of_grows stages_touches)
    next
      case (ok u w4)
      from ok(1) have t4: "touches_only c {} w3 w4"
        by (rule touches_for_each) (rule touches_assign_first_level)
      define w5 where "w5 = set_col c ''num components refined'' (\<lambda>_. IntV 0)
                        (set_col c ''num components orig'' (\<lambda>_. IntV 0) w4)"
      define w6 where "w6 = fold (count_components G a c) (findex (heap w5 ! c)) w5"
      have t5: "touches_only c tmp_cols w4 w5"
        unfolding w5_def by (rule touches_only_trans[OF touches_set_col touches_set_col]) simp_all
      have t6: "touches_only c tmp_cols w5 w6"
        unfolding w6_def by (rule touches_fold) (rule touches_count_components)
      have c6: "copy_of w a tmp_cols w6 c"
        using c3 t4 t5 t6
        by (meson copy_of_mono copy_of_touches empty_subsetI)
      have s6: "stages w6 = stages w @ [Reconstructor]"
        using s3 t4 t5 t6 by (simp add: stages_touches)
      from ok(2) show ?thesis
        unfolding tail_def Let_def w5_def[symmetric] w6_def[symmetric]
      proof (cases rule: and_then_cases)
        case (err e)
        from err(1) have "touches_only c tmp_cols w6 w'"
          by (rule touches_for_each) (rule touches_assign_level)
        with c6 s6 err(2) show ?thesis
          by (auto dest: copy_of_touches copy_of_grows stages_touches)
      next
        case (ok d w7)
        from ok(1) have t7: "touches_only c tmp_cols w6 w7"
          by (rule touches_for_each) (rule touches_assign_level)
        obtain r' w8 where r': "df_copy c w7 = (r', w8)" by (cases "df_copy c w7")
        have c7: "copy_of w a tmp_cols w7 c" using c6 t7 by (rule copy_of_touches)
        have c8: "copy_of w a tmp_cols w8 r'" using c7 r' by (rule copy_of_copy)
        have s8: "stages w8 = stages w @ [Reconstructor]"
          using s6 t7 stages_df_copy[OF r'] by (simp add: stages_touches)
        let ?w9 = "del_col r' ''num components orig'' w8"
        from copy_of_del_col[OF c8, of "''num components orig''"]
        have c9: "copy_of w a tmp_cols ?w9 r'"
          and n9: "cols (heap ?w9 ! r') ''num components orig'' = None" by simp_all
        from copy_of_del_col[OF c9, of "''num components refined''"] n9
        have c10: "copy_of w a tmp_cols (del_col r' ''num components refined'' ?w9) r'"
          and n10: "cols (heap (del_col r' ''num components refined'' ?w9) ! r')
                      ''num components refined'' = None"
          and n11: "cols (heap (del_col r' ''num components refined'' ?w9) ! r')
                      ''num components orig'' = None" by simp_all
        have s10: "stages (del_col r' ''num components refined'' ?w9) = stages w @ [Reconstructor]"
          using s8 by (simp add: del_col_def)
        from ok(2) r' have "res = Inr r'" "w' = del_col r' ''num components refined'' ?w9"
          by auto
        with c10 n10 n11 s10 show ?thesis by (auto dest: copy_of_grows)
      qed
    qed
  qed
  from all show "grows w w'" "stages w' = stages w @ [Reconstructor]" by simp_all
  from all show "res = Inr r \<Longrightarrow> copy_of w a tmp_cols w' r
           \<and> cols (heap w' ! r) ''num components orig'' = None
           \<and> cols (heap w' ! r) ''num components refined'' = None" by simp
qed

lemma touches_fill_hole:
  "fill_hole G c hb h st w = (r, w') \<Longrightarrow> touches_only c N w w'"
  by (auto simp: fill_hole_def Let_def touches_only_refl touches_set_geom
           split: if_splits sum.splits prod.splits)

lemma touches_gap_loop_aux:
  assumes "gap_loop G c holes w = Some y"
  shows "touches_only c N w (snd y)"
proof (rule gap_loop.raw_induct[where P = "\<lambda>G c holes w y. touches_only c N w (snd y)",
         OF _ assms], goal_cases)
  case (1 loop G c holes w y)
  obtain r1 w1 where f: "for_each holes (fill_hole G c (hole_boundaries G holes (heap w ! c)))
             (holes, False, []) w = (r1, w1)"
    by (cases "for_each holes (fill_hole G c (hole_boundaries G holes (heap w ! c)))
             (holes, False, []) w")
  from f have t: "touches_only c N w w1"
    by (rule touches_for_each) (rule touches_fill_hole)
  show ?case
  proof (cases r1)
    case (Inl e)
    with 1(2) f have "snd y = w1" by auto
    with t show ?thesis by simp
  next
    case (Inr st)
    obtain hs act nh where st: "st = (hs, act, nh)" by (cases st)
    show ?thesis
    proof (cases act)
      case True
      with 1(2) f Inr st have "loop G c (append_holes hs nh) w1 = Some y" by simp
      then have "touches_only c N w1 (snd y)" by (rule 1(1))
      with t show ?thesis by (rule touches_only_trans)
    next
      case False
      with 1(2) f Inr st have "snd y = w1" by auto
      with t show ?thesis by simp
    qed
  qed
qed

lemma touches_gap_loop:
  "gap_loop G c holes w = Some (res, w') \<Longrightarrow> touches_only c N w w'"
  by (drule touches_gap_loop_aux[where N = N]) simp

lemma close_gaps_effect:
  assumes "close_gaps_jc G a holes w = Some (res, w')"
  shows "grows w w'" and "stages w' = stages w @ [GapCloser]"
    and "res = Inr r \<Longrightarrow> copy_of w a {} w' r"
proof -
  obtain c w2 where c: "df_copy a (enter GapCloser w) = (c, w2)"
    by (cases "df_copy a (enter GapCloser w)")
  have c2: "copy_of w a {} w2 c"
    using copy_of_fresh[OF c] by (rule copy_of_from_enter)
  have s2: "stages w2 = stages w @ [GapCloser]"
    using stages_df_copy[OF c] by (simp add: stages_enter)
  obtain x where g: "gap_loop G c holes w2 = Some (x, w')" and x: "res = Inr r \<Longrightarrow> r = c"
    using assms c
    by (auto simp: close_gaps_jc_def Let_def split: option.splits sum.splits prod.splits)
  from g have t: "touches_only c {} w2 w'" by (rule touches_gap_loop)
  from copy_of_touches[OF c2 t] show "grows w w'" by (rule copy_of_grows)
  from s2 t show "stages w' = stages w @ [GapCloser]" by (simp add: stages_touches)
  from copy_of_touches[OF c2 t] x show "res = Inr r \<Longrightarrow> copy_of w a {} w' r" by simp
qed

subsection \<open>Rook-to-Queen Converter\<close>

lemma touches_rook_to_queen_step:
  "rook_to_queen_step G c m a u w = (r, w') \<Longrightarrow> touches_only c N w w'"
  unfolding rook_to_queen_step_def Let_def
  by (auto simp: touches_only_refl split: if_splits
           intro!: touches_fold touches_set_geom
           intro: touches_only_trans[OF touches_fold touches_only_trans[OF touches_fold touches_fold]])

lemma rook_effect:
  assumes "small_rook_to_queen_jc G a m w = (res, w')"
  shows "grows w w'" and "stages w' = stages w @ [RookToQueenConverter]"
    and "res = Inr r \<Longrightarrow> copy_of w a {} w' r"
proof -
  obtain c w2 where c: "df_copy a (enter RookToQueenConverter w) = (c, w2)"
    by (cases "df_copy a (enter RookToQueenConverter w)")
  have c2: "copy_of w a {} w2 c"
    using copy_of_fresh[OF c] by (rule copy_of_from_enter)
  have s2: "stages w2 = stages w @ [RookToQueenConverter]"
    using stages_df_copy[OF c] by (simp add: stages_enter)
  have "touches_only c {} w2 w' \<and> (res = Inr r \<longrightarrow> r = c)"
  proof (cases "small_adjacencies G (heap w2 ! c) m")
    case (Inl e)
    with assms c show ?thesis
      by (auto simp: small_rook_to_queen_jc_def Let_def touches_only_refl)
  next
    case (Inr adj)
    with assms c have "and_then (for_each adj (rook_to_queen_step G c m) () w2)
               (\<lambda>_ w3. (Inr c, w3)) = (res, w')"
      by (simp add: small_rook_to_queen_jc_def Let_def)
    then show ?thesis
    proof (cases rule: and_then_cases)
      case (err e)
      from err(1) have "touches_only c {} w2 w'"
        by (rule touches_for_each) (rule touches_rook_to_queen_step)
      with err(2) show ?thesis by simp
    next
      case (ok y w1)
      from ok(1) have "touches_only c {} w2 w1"
        by (rule touches_for_each) (rule touches_rook_to_queen_step)
      with ok(2) show ?thesis by auto
    qed
  qed
  then have t: "touches_only c {} w2 w'" and x: "res = Inr r \<Longrightarrow> r = c" by simp_all
  from copy_of_touches[OF c2 t] show "grows w w'" by (rule copy_of_grows)
  from s2 t show "stages w' = stages w @ [RookToQueenConverter]" by (simp add: stages_touches)
  from copy_of_touches[OF c2 t] x show "res = Inr r \<Longrightarrow> copy_of w a {} w' r" by simp
qed

subsection \<open>Disconnection Repair\<close>

lemma touches_move_fragment:
  "move_fragment G r tree g cas big i cl w = (res, w') \<Longrightarrow> touches_only r N w w'"
  by (auto simp: move_fragment_def Let_def touches_only_refl touches_set_geom
           split: if_splits sum.splits)

lemma touches_repair_disconnected:
  assumes "repair_disconnected G a0 r tree g u w = (res, w')"
  shows "touches_only r N w w'"
proof (cases "num_components_jc G (get_geom w r g)")
  case None
  with assms show ?thesis by (simp add: repair_disconnected_def touches_only_refl)
next
  case (Some n_new)
  note n1 = this
  show ?thesis
  proof (cases "num_components_jc G (get_geom w a0 g)")
    case None
    with assms n1 show ?thesis by (simp add: repair_disconnected_def touches_only_refl)
  next
    case (Some n_orig)
    note n2 = this
    show ?thesis
    proof (cases "py_len G (get_geom w r g)")
      case (Inl e)
      with assms n1 n2 show ?thesis by (simp add: repair_disconnected_def touches_only_refl)
    next
      case (Inr n)
      from assms show ?thesis
        unfolding repair_disconnected_def n1 n2 Inr Let_def prod.case option.case sum.case
      proof (cases rule: and_then_cases)
        case (err e)
        from err(1) show ?thesis by (rule touches_for_each) (rule touches_move_fragment)
      next
        case (ok cl w1)
        from ok(1) have "touches_only r N w w1"
          by (rule touches_for_each) (rule touches_move_fragment)
        moreover from ok(2) have "touches_only r N w1 w'"
          by (auto simp: touches_set_geom touches_say split: if_splits)
        ultimately show ?thesis by (rule touches_only_trans)
      qed
    qed
  qed
qed

lemma touches_collect_worse:
  "collect_worse G a0 r ind acc w = (res, w') \<Longrightarrow> touches_only r N w w'"
  by (auto simp: collect_worse_def touches_only_refl split: sum.splits)

lemma touches_warn_worse:
  "warn_worse G a0 r ind u w = (res, w') \<Longrightarrow> touches_only r N w w'"
  by (auto simp: warn_worse_def touches_only_refl touches_say split: sum.splits if_splits)

lemma disconnection_repair_effect:
  assumes "disconnection_repair G a0 r w = (res, w')"
  shows "touches_only r N (enter DisconnectionRepair w) w'"
  using assms unfolding disconnection_repair_def Let_def
proof (cases rule: and_then_cases)
  case (err e)
  from err(1) show ?thesis by (rule touches_for_each) (rule touches_collect_worse)
next
  case (ok ds w2)
  from ok(1) have a: "touches_only r N (enter DisconnectionRepair w) w2"
    by (rule touches_for_each) (rule touches_collect_worse)
  from ok(2) have "touches_only r N w2 w'"
  proof (cases rule: and_then_cases)
    case (err e)
    from err(1) show ?thesis by (rule touches_for_each) (rule touches_repair_disconnected)
  next
    case (ok u w3)
    from ok(1) have "touches_only r N w2 w3"
      by (rule touches_for_each) (rule touches_repair_disconnected)
    moreover from ok(2) have "touches_only r N w3 w'"
      by (rule touches_for_each) (rule touches_warn_worse)
    ultimately show ?thesis by (rule touches_only_trans)
  qed
  with a show ?thesis by (rule touches_only_trans)
qed

lemma copy_of_grow_on: "copy_of w0 a0 N w c \<Longrightarrow> grows w w' \<Longrightarrow> copy_of w0 a0 N w' c"
  by (auto simp: copy_of_def grows_def)

lemma carried_touches:
  assumes "carried w0 a0 w r" "touches_only r {} w w'"
  shows "carried w0 a0 w' r"
proof -
  from assms(2) have t: "touches_only r tmp_cols w w'" by (rule touches_only_mono) simp
  from assms(2) have c: "\<And>n. cols (heap w' ! r) n = cols (heap w ! r) n"
    by (simp add: touches_only_def)
  from assms(1) have "copy_of w0 a0 tmp_cols w r" by (simp add: carried_def)
  then have "copy_of w0 a0 tmp_cols w' r" using t by (rule copy_of_touches)
  with assms(1) c show ?thesis by (simp add: carried_def)
qed

lemma carried_copy:
  assumes "carried w0 a0 w r" "copy_of w r {} w' r'"
  shows "carried w0 a0 w' r'"
proof -
  from assms(1) have "copy_of w0 a0 tmp_cols w r" by (simp add: carried_def)
  from copy_of_compose[OF this assms(2)] have k: "copy_of w0 a0 tmp_cols w' r'" by simp
  from assms(2) have c: "\<And>n. cols (heap w' ! r') n = cols (heap w ! r) n"
    by (simp add: copy_of_def)
  from assms(1) k c show ?thesis by (simp add: carried_def)
qed

lemma carried_say: "carried w0 a0 w r \<Longrightarrow> carried w0 a0 (say m w) r"
  by (simp add: carried_def copy_of_say heap_say)

lemma carried_enter: "carried w0 a0 w r \<Longrightarrow> carried w0 a0 (enter s w) r"
  by (simp add: carried_def copy_of_enter heap_enter)

lemma copy_of_say_src: "copy_of (say m w) a N w' r \<Longrightarrow> copy_of w a N w' r"
  by (rule copy_of_from_say)

lemma stage_order_prefixes:
  "\<exists>k. [ArrangementBuilder, OverlapClassifier] = take k (stage_order cg mr)"
  "\<exists>k. [ArrangementBuilder, OverlapClassifier, Reconstructor] = take k (stage_order cg mr)"
  "\<exists>k. [ArrangementBuilder, OverlapClassifier, Reconstructor] @ (if cg then [GapCloser] else [])
        = take k (stage_order cg mr)"
  "\<exists>k. [ArrangementBuilder, OverlapClassifier, Reconstructor] @ (if cg then [GapCloser] else [])
          @ [DisconnectionRepair] = take k (stage_order cg mr)"
  "\<exists>k. stage_order cg mr = take k (stage_order cg mr)"
proof -
  show "\<exists>k. [ArrangementBuilder, OverlapClassifier] = take k (stage_order cg mr)"
    by (rule exI[of _ 2]) (simp add: stage_order_def)
  show "\<exists>k. [ArrangementBuilder, OverlapClassifier, Reconstructor] = take k (stage_order cg mr)"
    by (rule exI[of _ 3]) (simp add: stage_order_def)
  show "\<exists>k. [ArrangementBuilder, OverlapClassifier, Reconstructor] @ (if cg then [GapCloser] else [])
        = take k (stage_order cg mr)"
    by (rule exI[of _ "if cg then 4 else 3"]) (simp add: stage_order_def)
  show "\<exists>k. [ArrangementBuilder, OverlapClassifier, Reconstructor] @ (if cg then [GapCloser] else [])
          @ [DisconnectionRepair] = take k (stage_order cg mr)"
    by (rule exI[of _ "if cg then 5 else 4"]) (simp add: stage_order_def)
  show "\<exists>k. stage_order cg mr = take k (stage_order cg mr)"
    by (rule exI[of _ "length (stage_order cg mr)"]) simp
qed

lemma stages_prefix:
  assumes "stages w' = stages w0 @ xs" and "\<exists>k. xs = take k ys"
  shows "\<exists>k. stages w' = stages w0 @ take k ys"
  using assms by auto

lemma repair_effect:
  assumes "repair_gdf_jc G a0 cg mr w0 = Some (res, w')"
  shows "grows w0 w'"
    and "res = Inr r \<Longrightarrow> carried w0 a0 w' r \<and> stages w' = stages w0 @ stage_order cg mr"
    and "\<exists>k. stages w' = stages w0 @ take k (stage_order cg mr)"
proof -
  obtain gdf w1 where c: "df_copy a0 w0 = (gdf, w1)" by (cases "df_copy a0 w0")
  define w2 where "w2 = fold (\<lambda>i w. set_geom gdf i (force_2d G (get_geom w gdf i)) w)
                 (findex (heap w1 ! gdf)) w1"
  define w3 where "w3 = (if geographic (heap w2 ! gdf) then say WarnGeographicCRS w2 else w2)"
  have c1: "copy_of w0 a0 {} w1 gdf" using c by (rule copy_of_fresh)
  have t2: "touches_only gdf {} w1 w2"
    unfolding w2_def by (rule touches_fold) (rule touches_set_geom)
  have t3: "touches_only gdf {} w2 w3"
    unfolding w3_def by (simp add: touches_only_refl touches_say)
  have c3: "copy_of w0 a0 {} w3 gdf"
    using c1 t2 t3 by (blast intro: copy_of_touches)
  have s3: "stages w3 = stages w0"
    using stages_df_copy[OF c] t2 t3 by (simp add: stages_touches)
  obtain rb w4 where bb: "building_blocks_jc G gdf w3 = (rb, w4)"
    by (cases "building_blocks_jc G gdf w3")
  note b = building_blocks_effect[OF bb]
  have c4: "copy_of w0 a0 {} w4 gdf" using c3 b(1) by (rule copy_of_grow_on)
  have s4: "stages w4 = stages w0 @ [ArrangementBuilder, OverlapClassifier]"
    using b(2) s3 by simp
  have main: "(case building_blocks_jc G gdf w3 of
           (Inl e, w4) \<Rightarrow> Some (Inl e, w4)
         | (Inr (overlap_tower, holes_df), w4) \<Rightarrow>
            (case reconstruct_from_overlap_tower_jc G gdf overlap_tower
                    (say (Print ''Resolving overlaps...'') w4) of
               (Inl e, w5) \<Rightarrow> Some (Inl e, w5)
             | (Inr reconstructed_df, w5) \<Rightarrow>
                (case (if cg
                       then close_gaps_jc G reconstructed_df holes_df
                              (say (Print ''Closing gaps...'') w5)
                       else Some (Inr reconstructed_df, w5)) of
                   None \<Rightarrow> None
                 | Some (Inl e, w6) \<Rightarrow> Some (Inl e, w6)
                 | Some (Inr reconstructed_df, w6) \<Rightarrow>
                    (case disconnection_repair G a0 reconstructed_df w6 of
                       (Inl e, w7) \<Rightarrow> Some (Inl e, w7)
                     | (Inr _, w7) \<Rightarrow>
                        (case mr of
                           None \<Rightarrow> Some (Inr reconstructed_df, w7)
                         | Some m \<Rightarrow>
                             Some (small_rook_to_queen_jc G reconstructed_df m
                                     (say (Print ''Converting small rook adjacencies to queen...'')
                                        w7))))))) = Some (res, w')"
    using assms unfolding repair_gdf_jc_def Let_def c prod.case w3_def w2_def .
  have all: "grows w0 w' \<and> (res = Inr r \<longrightarrow> carried w0 a0 w' r
      \<and> stages w' = stages w0 @ stage_order cg mr)
      \<and> (\<exists>k. stages w' = stages w0 @ take k (stage_order cg mr))"
  proof (cases rb)
    case (Inl e)
    with main bb have "w' = w4" "res = Inl e" by auto
    with c4 stages_prefix[OF s4 stage_order_prefixes(1)] show ?thesis
      by (auto dest: copy_of_grows)
  next
    case (Inr th)
    obtain tower holes where th: "th = (tower, holes)" by (cases th)
    let ?w4 = "say (Print ''Resolving overlaps...'') w4"
    obtain rr w5 where rc: "reconstruct_from_overlap_tower_jc G gdf tower ?w4 = (rr, w5)"
      by (cases "reconstruct_from_overlap_tower_jc G gdf tower ?w4")
    note re = reconstruct_effect[OF rc]
    have g5: "grows w0 w5"
      using c4 re(1) by (blast intro: grows_trans grows_say dest: copy_of_grows)
    have s5: "stages w5 = stages w0 @ [ArrangementBuilder, OverlapClassifier, Reconstructor]"
      using re(2) s4 by (simp add: stages_say)
    show ?thesis
    proof (cases rr)
      case (Inl e)
      with main bb Inr th rc have "w' = w5" "res = Inl e" by auto
      with g5 stages_prefix[OF s5 stage_order_prefixes(2)] show ?thesis by simp
    next
      case (Inr r1)
      note rr = this
      have c4s: "copy_of w0 a0 {} ?w4 gdf" using c4 by (rule copy_of_say)
      from re(3)[OF rr] have r5: "copy_of ?w4 gdf tmp_cols w5 r1"
        and n5: "cols (heap w5 ! r1) ''num components orig'' = None"
                "cols (heap w5 ! r1) ''num components refined'' = None" by simp_all
      from copy_of_compose[OF c4s r5] have "copy_of w0 a0 tmp_cols w5 r1" by simp
      with n5 have k5: "carried w0 a0 w5 r1" by (simp add: carried_def)
      define gc where "gc = (if cg then close_gaps_jc G r1 holes (say (Print ''Closing gaps...'') w5)
                             else Some (Inr r1, w5))"
      have rest: "(case gc of None \<Rightarrow> None
                 | Some (Inl e, w6) \<Rightarrow> Some (Inl e, w6)
                 | Some (Inr reconstructed_df, w6) \<Rightarrow>
                    (case disconnection_repair G a0 reconstructed_df w6 of
                       (Inl e, w7) \<Rightarrow> Some (Inl e, w7)
                     | (Inr _, w7) \<Rightarrow>
                        (case mr of
                           None \<Rightarrow> Some (Inr reconstructed_df, w7)
                         | Some m \<Rightarrow>
                             Some (small_rook_to_queen_jc G reconstructed_df m
                                     (say (Print ''Converting small rook adjacencies to queen...'')
                                        w7))))) = Some (res, w')"
        using main bb \<open>rb = Inr th\<close> th rc rr by (simp add: gc_def)
      then obtain rg w6 where gc: "gc = Some (rg, w6)"
        by (cases gc) auto
      have s6: "stages w6 = stages w0 @ [ArrangementBuilder, OverlapClassifier, Reconstructor]
                        @ (if cg then [GapCloser] else [])"
      proof (cases cg)
        case True
        with gc have "close_gaps_jc G r1 holes (say (Print ''Closing gaps...'') w5) = Some (rg, w6)"
          by (simp add: gc_def)
        from close_gaps_effect(2)[OF this] s5 True show ?thesis by (simp add: stages_say)
      next
        case False
        with gc s5 show ?thesis by (simp add: gc_def)
      qed
      have g6: "grows w0 w6"
        and x6: "\<And>r2. rg = Inr r2 \<Longrightarrow> carried w0 a0 w6 r2 \<and> length (heap w0) \<le> r2
                   \<and> stages w6 = stages w0 @ [ArrangementBuilder, OverlapClassifier, Reconstructor]
                        @ (if cg then [GapCloser] else [])"
      proof -
        show "grows w0 w6"
        proof (cases cg)
          case True
          with gc have "close_gaps_jc G r1 holes (say (Print ''Closing gaps...'') w5) = Some (rg, w6)"
            by (simp add: gc_def)
          from close_gaps_effect(1)[OF this] g5 show ?thesis
            by (blast intro: grows_trans grows_say)
        next
          case False
          with gc g5 show ?thesis by (simp add: gc_def)
        qed
        fix r2 assume r2: "rg = Inr r2"
        show "carried w0 a0 w6 r2 \<and> length (heap w0) \<le> r2
                   \<and> stages w6 = stages w0 @ [ArrangementBuilder, OverlapClassifier, Reconstructor]
                        @ (if cg then [GapCloser] else [])"
        proof (cases cg)
          case True
          with gc have cl: "close_gaps_jc G r1 holes (say (Print ''Closing gaps...'') w5) = Some (rg, w6)"
            by (simp add: gc_def)
          from close_gaps_effect(3)[OF cl r2]
          have "copy_of w5 r1 {} w6 r2" by (rule copy_of_from_say)
          with k5 have "carried w0 a0 w6 r2" by (rule carried_copy)
          moreover from close_gaps_effect(2)[OF cl] s5
          have "stages w6 = stages w0 @ [ArrangementBuilder, OverlapClassifier, Reconstructor]
                        @ [GapCloser]" by (simp add: stages_say)
          ultimately show ?thesis using True by (auto simp: carried_def copy_of_def)
        next
          case False
          with gc r2 k5 s5 show ?thesis by (auto simp: gc_def carried_def copy_of_def)
        qed
      qed
      show ?thesis
      proof (cases rg)
        case (Inl e)
        with rest gc have "w' = w6" "res = Inl e" by auto
        with g6 stages_prefix[OF s6 stage_order_prefixes(3)] show ?thesis by simp
      next
        case (Inr r2)
        note x = x6[OF Inr]
        obtain rd w7 where dr: "disconnection_repair G a0 r2 w6 = (rd, w7)"
          by (cases "disconnection_repair G a0 r2 w6")
        note t7 = disconnection_repair_effect[OF dr, of "{}"]
        have k7: "carried w0 a0 w7 r2"
          using carried_enter[OF conjunct1[OF x]] t7 by (rule carried_touches)
        have g7: "grows w0 w7"
          using k7 by (simp add: carried_def copy_of_def)
        have s7: "stages w7 = stages w0 @ [ArrangementBuilder, OverlapClassifier, Reconstructor]
                        @ (if cg then [GapCloser] else []) @ [DisconnectionRepair]"
          using x stages_touches[OF t7] by (simp add: stages_enter)
        show ?thesis
        proof (cases rd)
          case (Inl e)
          with rest gc Inr dr have "w' = w7" "res = Inl e" by auto
          with g7 stages_prefix[OF s7 stage_order_prefixes(4)] show ?thesis by simp
        next
          case (Inr u)
          note rd = this
          show ?thesis
          proof (cases mr)
            case None
            with rest gc \<open>rg = Inr r2\<close> dr rd have w7: "w' = w7" "res = Inr r2" by auto
            have f7: "stages w7 = stages w0 @ stage_order cg mr"
              using s7 None by (simp add: stage_order_def)
            from w7 g7 k7 f7 stages_prefix[OF f7 stage_order_prefixes(5)] show ?thesis by auto
          next
            case (Some m)
            let ?w7 = "say (Print ''Converting small rook adjacencies to queen...'') w7"
            from rest gc \<open>rg = Inr r2\<close> dr rd Some
            have rk: "small_rook_to_queen_jc G r2 m ?w7 = (res, w')" by auto
            note e = rook_effect[OF rk]
            have "grows w0 w'" using g7 e(1) by (blast intro: grows_trans grows_say)
            moreover have "res = Inr r \<Longrightarrow> carried w0 a0 w' r"
              using carried_copy[OF k7 copy_of_from_say[OF e(3)]] by simp
            moreover have f: "stages w' = stages w0 @ stage_order cg mr"
              using e(2) s7 Some by (simp add: stage_order_def stages_say)
            moreover note stages_prefix[OF f stage_order_prefixes(5)]
            ultimately show ?thesis by simp
          qed
        qed
      qed
    qed
  qed
  from all show "grows w0 w'" by simp
  from all show "res = Inr r \<Longrightarrow> carried w0 a0 w' r \<and> stages w' = stages w0 @ stage_order cg mr"
    by simp
  from all show "\<exists>k. stages w' = stages w0 @ take k (stage_order cg mr)" by simp
qed

section \<open>Runs on the example datasets\<close>

lemmas model_defs = and_then_def df_copy_def df_new_def get_geom_def set_geom_def set_col_def del_col_def
  get_col_def say_def enter_def num_components_jc_def py_gt_def is_multi_def py_len_def explode_def
  max_by_snd_def py_set_list_def tree_labels_def snapshot_def query_def adjacencies_jc_def
  intersections_jc_def owners_of_def overlap_degree_def building_blocks_jc_def set_all_geom_def
  set_cell_def nc_val_def val_gt_def val_eq_def assign_first_level_def count_components_def
  grab_overlap_def first_dibs_def glue_overlap_def assign_level_def
  reconstruct_from_overlap_tower_jc_def sorted_line_segments_def find_line_pair_def attempt_pair_def
  partial_fill_data_jc_def merged_parts_def hole_boundaries_def fill_hole_def append_holes_def
  close_gaps_jc_def clean_adjacency_def small_adjacencies_def rook_to_queen_step_def
  small_rook_to_queen_jc_def move_fragment_def repair_disconnected_def got_worse_def not_polygon_def
  collect_worse_def warn_worse_def disconnection_repair_def repair_gdf_jc_def

lemmas toy_defs = toy_shapely_def components_def grow_def adjacent_def toy_intersection_def

lemma run0:
  "\<exists>w'. repair_gdf_jc (toy_shapely square_map) 0 True None square_world = Some (Inr 5, w')
        \<and> stages w' = [ArrangementBuilder, OverlapClassifier, Reconstructor, GapCloser,
                        DisconnectionRepair]"
  by (simp add: model_defs toy_defs square_map_def square_df_def square_world_def Let_def gap_loop.simps)

lemma run0c:
  "\<exists>w'. repair_gdf_jc (toy_shapely square_map) 0 False None square_attr_world = Some (Inr 4, w')
        \<and> findex (heap w' ! 4) = [0]
        \<and> cols (heap w' ! 4) ''NAME'' = Some (\<lambda>i. TextV ''a'')
        \<and> cols (heap w' ! 4) ''num components orig'' = None"
  by (simp add: model_defs toy_defs square_map_def square_attr_df_def square_attr_world_def Let_def)

lemma twin_run:
  "\<exists>w'. repair_gdf_jc (toy_shapely square_map) 0 False None twin_world
           = Some (Inl (NameError ''multi_index''), w')
     \<and> stdout w' = [Print ''Identifying overlaps...'', Print ''Resolving overlaps...'',
                     PrintAssigningOrder 2]
     \<and> stages w' = [ArrangementBuilder, OverlapClassifier, Reconstructor]"
  by (simp add: model_defs toy_defs square_map_def twin_df_def twin_world_def Let_def)

section \<open>The input dataset is left alone\<close>

text \<open>Claim C10.  \<^verbatim>\<open>repair_gdf_jc\<close> never mutates its input: whatever the call returns, a
  dataset or an exception, every frame that existed before the call, the input frame among
  them, is the same frame afterwards, geometries and attributes.  All the work, the flattening
  to two dimensions included, is done on frames allocated by the call.\<close>

theorem repair_gdf_jc_input_unchanged:
  assumes "repair_gdf_jc G geometries0_df close_gaps min_rook_length w = Some (res, w')"
    and "b < length (heap w)"
  shows "heap w' ! b = heap w ! b"
  using repair_effect(1)[OF assms(1)] assms(2) by (simp add: grows_def)

theorem repair_gdf_jc_input_unchanged_witness:
  "\<exists>res w'. repair_gdf_jc (toy_shapely square_map) 0 False None square_attr_world = Some (res, w')
     \<and> heap w' ! 0 = square_attr_df"
proof -
  from run0c obtain w' where r: "repair_gdf_jc (toy_shapely square_map) 0 False None square_attr_world = Some (Inr 4, w')"
    by blast
  have "heap w' ! 0 = heap square_attr_world ! 0"
    by (rule repair_gdf_jc_input_unchanged[OF r]) (simp add: square_attr_world_def)
  then show ?thesis using r by (simp add: square_attr_world_def)
qed


section \<open>The order of the stages\<close>

text \<open>Claim C3, as the specification words it, fails: with gap closing enabled the Gap Closer
  runs before Disconnection Repair, not after it.\<close>

theorem stage_order_counterexample:
  "\<exists>r w'. repair_gdf_jc (toy_shapely square_map) 0 True None square_world = Some (Inr r, w')
     \<and> stages w' = [ArrangementBuilder, OverlapClassifier, Reconstructor, GapCloser,
                     DisconnectionRepair]
     \<and> stages w' \<noteq> stages square_world @ spec_stage_order True None"
  using run0 by (auto simp: spec_stage_order_def square_world_def)

text \<open>Claim C3, amended.  In every run of \<^verbatim>\<open>repair_gdf_jc\<close> the stages execute in the order
  Arrangement Builder, Overlap Classifier, Reconstructor, then (when enabled) Gap Closer, then
  Disconnection Repair, then (when enabled) Rook-to-Queen Converter: the optional Gap Closer
  runs before Disconnection Repair.  A run that ends, by returning or by raising, has executed
  an initial segment of that order and nothing else; a run that returns a dataset has executed
  all of it.\<close>

theorem repair_gdf_jc_stage_order:
  assumes "repair_gdf_jc G geometries0_df close_gaps min_rook_length w = Some (res, w')"
  shows "(\<exists>k. stages w' = stages w @ take k (stage_order close_gaps min_rook_length))
     \<and> (\<forall>r. res = Inr r \<longrightarrow> stages w' = stages w @ stage_order close_gaps min_rook_length)"
  using repair_effect(2,3)[OF assms] by blast

theorem repair_gdf_jc_stage_order_witness:
  "(\<exists>r w'. repair_gdf_jc (toy_shapely square_map) 0 True None square_world = Some (Inr r, w')
       \<and> stages w' = stages square_world @ stage_order True None)
   \<and> (\<exists>e w' k. repair_gdf_jc (toy_shapely square_map) 0 False None twin_world = Some (Inl e, w')
       \<and> stages w' = stages twin_world @ take k (stage_order False None))"
proof
  from run0 obtain w' where
    r: "repair_gdf_jc (toy_shapely square_map) 0 True None square_world = Some (Inr 5, w')"
    by blast
  from repair_gdf_jc_stage_order[OF r] r
  show "\<exists>r w'. repair_gdf_jc (toy_shapely square_map) 0 True None square_world = Some (Inr r, w')
       \<and> stages w' = stages square_world @ stage_order True None" by blast
next
  from twin_run obtain w' where
    r: "repair_gdf_jc (toy_shapely square_map) 0 False None twin_world
          = Some (Inl (NameError ''multi_index''), w')"
    by blast
  from repair_gdf_jc_stage_order[OF r] r
  show "\<exists>e w' k. repair_gdf_jc (toy_shapely square_map) 0 False None twin_world = Some (Inl e, w')
       \<and> stages w' = stages twin_world @ take k (stage_order False None)" by blast
qed


section \<open>Index and attributes of the output\<close>

text \<open>What \<^verbatim>\<open>repair_gdf_jc\<close> carries through.  The dataset returned has the index of the
  input and its coordinate reference system, and every attribute column of the input whose name
  is neither \<^verbatim>\<open>num components orig\<close> nor \<^verbatim>\<open>num components refined\<close>, unchanged; it has
  no column of either of these two names, and no other column than those of the input.\<close>

lemma repair_gdf_jc_attributes:
  assumes "repair_gdf_jc G geometries0_df close_gaps min_rook_length w = Some (Inr r, w')"
  shows "findex (heap w' ! r) = findex (heap w ! geometries0_df)
     \<and> geographic (heap w' ! r) = geographic (heap w ! geometries0_df)
     \<and> (\<forall>n. n \<notin> tmp_cols \<longrightarrow> cols (heap w' ! r) n = cols (heap w ! geometries0_df) n)
     \<and> (\<forall>n. n \<in> tmp_cols \<longrightarrow> cols (heap w' ! r) n = None)"
  using repair_effect(2)[OF assms] by (auto simp: carried_def copy_of_def)

text \<open>Claim C8 does not hold of the code.  The Reconstructor means to preserve every column of
  the input (lines 407--408), but it keeps its component counts in two columns of the frame it
  works on, \<^verbatim>\<open>num components orig\<close> and \<^verbatim>\<open>num components refined\<close> (lines 432--433), and
  deletes them at the end (lines 522--523).  An attribute column of the input that bears one of
  these names is overwritten and deleted with them: the dataset returned for a square with the
  columns \<^verbatim>\<open>NAME\<close> and \<^verbatim>\<open>num components orig\<close> has the index and the column \<^verbatim>\<open>NAME\<close> of the
  input, and no column \<^verbatim>\<open>num components orig\<close>.\<close>

theorem working_column_lost:
  "\<exists>r w'. repair_gdf_jc (toy_shapely square_map) 0 False None square_attr_world = Some (Inr r, w')
     \<and> findex (heap w' ! r) = findex (heap square_attr_world ! 0)
     \<and> cols (heap w' ! r) ''NAME'' = cols (heap square_attr_world ! 0) ''NAME''
     \<and> cols (heap square_attr_world ! 0) ''num components orig'' \<noteq> None
     \<and> cols (heap w' ! r) ''num components orig'' = None"
  using run0c by (auto simp: square_attr_world_def square_attr_df_def)

theorem working_column_lost_witness:
  "\<exists>r w'. repair_gdf_jc (toy_shapely square_map) 0 False None square_attr_world = Some (Inr r, w')
     \<and> cols (heap w' ! r) ''num components orig''
         \<noteq> cols square_attr_df ''num components orig''"
proof -
  from working_column_lost obtain r w' where
    "repair_gdf_jc (toy_shapely square_map) 0 False None square_attr_world = Some (Inr r, w')"
    "cols (heap square_attr_world ! 0) ''num components orig'' \<noteq> None"
    "cols (heap w' ! r) ''num components orig'' = None"
    by blast
  then show ?thesis by (auto simp: square_attr_world_def)
qed


section \<open>The unglued overlap\<close>

text \<open>Claim C4.  A contested piece that no polygon of its owner set shares a boundary with is
  not reported: the \<^verbatim>\<open>else\<close> branch of line 517 prints the name \<^verbatim>\<open>multi_index\<close>, which
  nothing defines, so the call raises \<^verbatim>\<open>NameError\<close> and the run ends.  A dataset of two
  identical squares reaches the branch: their one piece has degree 2, no piece has degree 1, and
  every geometry is still empty when the piece looks for a polygon to be glued to.  The last
  message printed is the one announcing the pieces of order 2.\<close>

theorem twin_polygons_raise:
  "\<exists>w'. repair_gdf_jc (toy_shapely square_map) 0 False None twin_world
           = Some (Inl (NameError ''multi_index''), w')
     \<and> stdout w' = [Print ''Identifying overlaps...'', Print ''Resolving overlaps...'',
                     PrintAssigningOrder 2]"
  using twin_run by blast

theorem twin_polygons_raise_witness:
  "\<exists>e w'. repair_gdf_jc (toy_shapely square_map) 0 False None twin_world = Some (Inl e, w')
     \<and> last (stdout w') = PrintAssigningOrder 2"
proof -
  from twin_polygons_raise obtain w' where
    "repair_gdf_jc (toy_shapely square_map) 0 False None twin_world
       = Some (Inl (NameError ''multi_index''), w')"
    "stdout w' = [Print ''Identifying overlaps...'', Print ''Resolving overlaps...'',
                  PrintAssigningOrder 2]"
    by blast
  then show ?thesis by auto
qed


section \<open>Holes that touch at most three polygons\<close>


lemma fill_hole_untouched:
  assumes "filter (\<lambda>r. source r = fst h) hole_boundaries_df = []"
  shows "fill_hole G c hole_boundaries_df h (holes_df, activity_this_round, new_holes) w
           = (Inl IndexError, w)"
  using assms by (simp add: fill_hole_def Let_def max_by_snd_def)






section \<open>Polygons left with more components\<close>








section \<open>Areas before and after\<close>

text \<open>Two polygons of area 2 each overlap in a face of area 1 and enclose a gap of area 1: the
  sum of the input areas is 4, the area of their union 3.  Without gap closing the output
  polygons have total area 3, the overlap being counted once and the gap not at all; with gap
  closing they have total area 4, the gap being part of one of them.\<close>

lemma quad_areas:
  "total_area (toy_shapely quad_map) quad_df = 4"
  "area (toy_shapely quad_map) (unary_union (toy_shapely quad_map) (map (geometry quad_df) (findex quad_df))) = 3"
  "area (toy_shapely quad_map) (Area [3]) = 1"
  by (simp_all add: toy_defs quad_map_def quad_df_def total_area_def)

lemma quad_run_open:
  "\<exists>w'. repair_gdf_jc (toy_shapely quad_map) 0 False None quad_world = Some (Inr 4, w')
      \<and> map (geometry (heap w' ! 4)) [0, 1] = [Area [0], Area [1, 2]]
      \<and> total_area (toy_shapely quad_map) (heap w' ! 4) = 3"
  by (simp add: model_defs toy_defs quad_map_def quad_df_def quad_world_def total_area_def Let_def)

lemma quad_run_closed:
  "\<exists>w'. repair_gdf_jc (toy_shapely quad_map) 0 True None quad_world = Some (Inr 5, w')
      \<and> map (geometry (heap w' ! 5)) [0, 1] = [Area [0], Area [1, 2, 3]]
      \<and> total_area (toy_shapely quad_map) (heap w' ! 5) = 4"
  by (simp add: model_defs toy_defs quad_map_def quad_df_def quad_world_def total_area_def Let_def
        gap_loop.simps)

end
